theory Spec2Isabelle
  imports Main "HOL-Library.Multiset"
begin

section \<open>Common vocabulary of the three scripts\<close>

text \<open>
  The scripts under \<^verbatim>\<open>src/scripts\<close> talk to remote services through boto3 clients,
  write log lines, read and write small text files and end either by returning, by
  raising, or by \<^verbatim>\<open>sys.exit\<close>. In the model a client is a record of functions that
  give the answer of each remote operation (an exception is the left summand), and a
  run returns how it ended together with what it did: the remote calls it issued, in
  order, the log lines, and the files it wrote.
\<close>

datatype exn =
    ClientError string
  | TypeError
  | JSONDecodeError
  | UnicodeDecodeError
  | OtherException string

text \<open>
  \<^verbatim>\<open>sys.exit(n)\<close> raises \<^verbatim>\<open>SystemExit\<close>, which is neither an \<^verbatim>\<open>Exception\<close> nor a
  \<^verbatim>\<open>ClientError\<close>: no handler of the scripts catches it, so it is an ending of its own.
\<close>

datatype 'a outcome = Returned 'a | Exited int | Raised exn

datatype level = INFO | WARNING | ERROR

record ('c, 'm) effects =
  calls :: "'c list"
  log :: "(level \<times> 'm) list"
  written :: "(string \<times> string) list"

definition no_effects :: "('c, 'm) effects" where
  "no_effects = \<lparr>calls = [], log = [], written = []\<rparr>"

definition call :: "'c \<Rightarrow> ('c, 'm) effects \<Rightarrow> ('c, 'm) effects" where
  "call c st = st\<lparr>calls := calls st @ [c]\<rparr>"

definition logf :: "level \<Rightarrow> 'm \<Rightarrow> ('c, 'm) effects \<Rightarrow> ('c, 'm) effects" where
  "logf l m st = st\<lparr>log := log st @ [(l, m)]\<rparr>"

definition logs :: "(level \<times> 'm) list \<Rightarrow> ('c, 'm) effects \<Rightarrow> ('c, 'm) effects" where
  "logs ms st = st\<lparr>log := log st @ ms\<rparr>"

definition write_file :: "string \<Rightarrow> string \<Rightarrow> ('c, 'm) effects \<Rightarrow> ('c, 'm) effects" where
  "write_file name content st = st\<lparr>written := written st @ [(name, content)]\<rparr>"

text \<open>An entry of \<^verbatim>\<open>list_agent_runtimes()['agentRuntimes']\<close>.\<close>

record agent_runtime =
  agentRuntimeName :: string
  agentRuntimeArn :: string
  agentRuntimeId :: string

text \<open>The keys that the scripts read of a create or update response.\<close>

record runtime_response =
  rsp_agentRuntimeArn :: string
  rsp_agentRuntimeId :: string

text \<open>
  The \<^verbatim>\<open>bedrock-agentcore-control\<close> client. \<^verbatim>\<open>update_agent_runtime\<close> takes the runtime
  id, the container URI, the network mode and the role ARN; \<^verbatim>\<open>create_agent_runtime\<close>
  takes the name in place of the id; \<^verbatim>\<open>get_agent_runtime\<close> answers with the
  \<^verbatim>\<open>status\<close> of the runtime with the given id.
\<close>

record control_client =
  list_agent_runtimes :: "exn + agent_runtime list"
  update_agent_runtime :: "string \<Rightarrow> string \<Rightarrow> string \<Rightarrow> string \<Rightarrow> exn + runtime_response"
  create_agent_runtime :: "string \<Rightarrow> string \<Rightarrow> string \<Rightarrow> string \<Rightarrow> exn + runtime_response"
  get_agent_runtime :: "string \<Rightarrow> exn + string"

datatype control_call =
    ListAgentRuntimes
  | UpdateAgentRuntime string string string string
  | CreateAgentRuntime string string string string
  | GetAgentRuntime string
  | InvokeAgentRuntime string string string

section \<open>\<^verbatim>\<open>deploy_agent.py\<close>\<close>

datatype deploy_msg =
    RoleArnNotFound
  | RunCreateIamRoleFirst
  | Deploying string
  | PlatformArm64
  | UsingRole string
  | FoundExisting nat
  | FoundAgent string
  | ErrorListing exn
  | AgentExists string bool bool
  | ExistsAutoUpdateDisabled string
  | UpdatingExisting string
  | ExistsNotDetected
  | CannotUpdateNoId
  | DeployedOk
  | AgentArnIs string
  | EcrUriIs string
  | DeploymentFailed exn

type_synonym deploy_effects = "(control_call, deploy_msg) effects"

text \<open>The dictionary that \<^verbatim>\<open>deploy_agent\<close> returns, with the keys \<^verbatim>\<open>agent_arn\<close>, \<^verbatim>\<open>agent_id\<close>, \<^verbatim>\<open>ecr_uri\<close>.\<close>

record deployment =
  info_agent_arn :: string
  info_agent_id :: string
  info_ecr_uri :: string

text \<open>
  The loop of lines 68 to 73: every entry visited is logged, the first one with the
  target name is taken and ends the loop.
\<close>

fun scan_agents :: "string \<Rightarrow> agent_runtime list \<Rightarrow> (level \<times> deploy_msg) list \<times> agent_runtime option" where
  "scan_agents agent_name [] = ([], None)"
| "scan_agents agent_name (agent # rest) =
     (if agentRuntimeName agent = agent_name
      then ([(INFO, FoundAgent (agentRuntimeName agent))], Some agent)
      else (case scan_agents agent_name rest of
              (lg, found) \<Rightarrow> ((INFO, FoundAgent (agentRuntimeName agent)) # lg, found)))"

text \<open>
  Lines 60 to 75. The inner \<^verbatim>\<open>try\<close> catches every \<^verbatim>\<open>Exception\<close> of the listing, logs a
  warning and leaves \<^verbatim>\<open>existing_agent = None\<close>, \<^verbatim>\<open>agent_exists = False\<close>.
\<close>

definition find_existing :: "control_client \<Rightarrow> string \<Rightarrow> deploy_effects \<Rightarrow> agent_runtime option \<times> deploy_effects" where
  "find_existing client agent_name st =
     (case list_agent_runtimes client of
        Inl e \<Rightarrow> (None, logf WARNING (ErrorListing e) (call ListAgentRuntimes st))
      | Inr agents \<Rightarrow>
          (case scan_agents agent_name agents of
             (lg, found) \<Rightarrow>
               (found, logs lg (logf INFO (FoundExisting (length agents)) (call ListAgentRuntimes st)))))"

text \<open>
  Lines 118 to 135: the deployment record is written to \<^verbatim>\<open>deployment_info.txt\<close>
  (opened with mode \<^verbatim>\<open>w\<close>, three \<^verbatim>\<open>key=value\<close> lines) and returned.
\<close>

definition deployment_info :: "string \<Rightarrow> string \<Rightarrow> string \<Rightarrow> string" where
  "deployment_info arn ident uri =
     ''agent_arn='' @ arn @ [CHR 0x0A] @ ''agent_id='' @ ident @ [CHR 0x0A] @ ''ecr_uri='' @ uri @ [CHR 0x0A]"

definition save_deployment :: "runtime_response \<Rightarrow> string \<Rightarrow> deploy_effects \<Rightarrow> deployment outcome \<times> deploy_effects" where
  "save_deployment response container_uri st =
     (let arn = rsp_agentRuntimeArn response;
          ident = rsp_agentRuntimeId response;
          st1 = write_file ''deployment_info.txt'' (deployment_info arn ident container_uri) st;
          st2 = logs [(INFO, DeployedOk), (INFO, AgentArnIs arn), (INFO, EcrUriIs container_uri)] st1
      in (Returned \<lparr>info_agent_arn = arn, info_agent_id = ident, info_ecr_uri = container_uri\<rparr>, st2))"

text \<open>
  The body of the outer \<^verbatim>\<open>try\<close> (lines 59 to 135). The handler of the create call
  (lines 108 to 116) catches \<^verbatim>\<open>ClientError\<close> only: with the code
  \<^verbatim>\<open>ConflictException\<close> and \<^verbatim>\<open>auto_update\<close> it logs and exits, otherwise it re-raises
  the same exception; any other exception passes it untouched.
\<close>

definition deploy_try :: "control_client \<Rightarrow> string \<Rightarrow> string \<Rightarrow> bool \<Rightarrow> string \<Rightarrow> deploy_effects \<Rightarrow> deployment outcome \<times> deploy_effects" where
  "deploy_try client agent_name container_uri auto_update role_arn st0 =
     (case find_existing client agent_name st0 of
        (existing_agent, st1) \<Rightarrow>
          (let agent_exists = (existing_agent \<noteq> None);
               st2 = logf INFO (AgentExists agent_name agent_exists auto_update) st1
           in case existing_agent of
                Some agent \<Rightarrow>
                  (if \<not> auto_update
                   then (Exited 1, logf ERROR (ExistsAutoUpdateDisabled agent_name) st2)
                   else (let st3 = call (UpdateAgentRuntime (agentRuntimeId agent) container_uri ''PUBLIC'' role_arn)
                                     (logf INFO (UpdatingExisting agent_name) st2)
                         in case update_agent_runtime client (agentRuntimeId agent) container_uri ''PUBLIC'' role_arn of
                              Inl e \<Rightarrow> (Raised e, st3)
                            | Inr response \<Rightarrow> save_deployment response container_uri st3))
              | None \<Rightarrow>
                  (let st3 = call (CreateAgentRuntime agent_name container_uri ''PUBLIC'' role_arn) st2
                   in case create_agent_runtime client agent_name container_uri ''PUBLIC'' role_arn of
                        Inl (ClientError code) \<Rightarrow>
                          (if code = ''ConflictException'' \<and> auto_update
                           then (Exited 1, logs [(INFO, ExistsNotDetected), (ERROR, CannotUpdateNoId)] st3)
                           else (Raised (ClientError code), st3))
                      | Inl e \<Rightarrow> (Raised e, st3)
                      | Inr response \<Rightarrow> save_deployment response container_uri st3)))"

text \<open>
  \<^verbatim>\<open>deploy_agent(agent_name, region, container_uri, auto_update)\<close>. The region only
  selects the client, which is a parameter here, as is the content of
  \<^verbatim>\<open>role_arn.txt\<close> (\<open>None\<close> when the file does not exist). Python's \<^verbatim>\<open>str.strip\<close>,
  which line 45 applies to that content, is a library function and the parameter
  \<open>str_strip\<close>: nothing is assumed of it. The handler of the outer \<^verbatim>\<open>try\<close> (lines
  137 to 139) catches \<^verbatim>\<open>ClientError\<close>, logs it and exits with status 1.
\<close>

definition start_log :: "string \<Rightarrow> string \<Rightarrow> deploy_effects" where
  "start_log agent_name role_arn =
     logs [(INFO, Deploying agent_name), (INFO, PlatformArm64), (INFO, UsingRole role_arn)] no_effects"

definition deploy_agent :: "(string \<Rightarrow> string) \<Rightarrow> string option \<Rightarrow> control_client \<Rightarrow> string \<Rightarrow> string \<Rightarrow> bool \<Rightarrow> deployment outcome \<times> deploy_effects" where
  "deploy_agent str_strip role_arn_txt client agent_name container_uri auto_update =
     (case role_arn_txt of
        None \<Rightarrow> (Exited 1, logs [(ERROR, RoleArnNotFound), (ERROR, RunCreateIamRoleFirst)] no_effects)
      | Some content \<Rightarrow>
          (let role_arn = str_strip content;
               st = start_log agent_name role_arn
           in case deploy_try client agent_name container_uri auto_update role_arn st of
                (Raised (ClientError code), st') \<Rightarrow>
                  (Exited 1, logf ERROR (DeploymentFailed (ClientError code)) st')
              | r \<Rightarrow> r))"

text \<open>
  How a control-plane exception \<open>e\<close> that leaves the outer \<^verbatim>\<open>try\<close> body ends the run:
  a \<^verbatim>\<open>ClientError\<close> meets the handler of lines 137 to 139 and the run exits with
  status 1; any other exception leaves \<^verbatim>\<open>deploy_agent\<close> as it is.
\<close>

definition fatal :: "exn \<Rightarrow> 'a outcome" where
  "fatal e = (case e of ClientError code \<Rightarrow> Exited 1 | other \<Rightarrow> Raised other)"

text \<open>Concrete control planes for the examples.\<close>

definition example_runtime :: agent_runtime where
  "example_runtime =
     \<lparr>agentRuntimeName = ''agent'', agentRuntimeArn = ''arn:agent'', agentRuntimeId = ''agent-1''\<rparr>"

definition example_response :: runtime_response where
  "example_response = \<lparr>rsp_agentRuntimeArn = ''arn:agent'', rsp_agentRuntimeId = ''agent-1''\<rparr>"

definition example_control :: "exn + agent_runtime list \<Rightarrow> exn + runtime_response \<Rightarrow> exn + string \<Rightarrow> control_client" where
  "example_control listing answer status =
     \<lparr>list_agent_runtimes = listing,
      update_agent_runtime = (\<lambda>i u m r. answer),
      create_agent_runtime = (\<lambda>a u m r. answer),
      get_agent_runtime = (\<lambda>i. status)\<rparr>"

section \<open>\<^verbatim>\<open>cleanup_ecr.py\<close>\<close>

text \<open>
  An entry of \<^verbatim>\<open>describe_images()['imageDetails']\<close>. Both keys may be missing: the
  script reads \<^verbatim>\<open>imagePushedAt\<close> with \<^verbatim>\<open>x.get("imagePushedAt", 0)\<close> and tests
  \<^verbatim>\<open>"imageDigest" in image\<close>. boto3 delivers \<^verbatim>\<open>imagePushedAt\<close> as a
  \<^verbatim>\<open>datetime.datetime\<close>, modelled by its POSIX time stamp.
\<close>

record image_detail =
  imageDigest :: "string option"
  imagePushedAt :: "int option"

record ecr_client =
  describe_repositories :: "string \<Rightarrow> exn + unit"
  describe_images :: "string \<Rightarrow> exn + image_detail list"
  batch_delete_image :: "string \<Rightarrow> string list \<Rightarrow> exn + unit"

datatype ecr_call =
    DescribeRepositories string
  | DescribeImages string
  | BatchDeleteImage string "string list"

datatype cleanup_msg =
    ProcessingRepository string
  | RepositoryNotFoundSkipping string
  | DeletedOld nat string
  | KeptRecent int
  | WithinKeepLimit string nat
  | ErrorProcessing string exn

type_synonym cleanup_effects = "(ecr_call, cleanup_msg) effects"

text \<open>
  The sort key \<^verbatim>\<open>lambda x: x.get("imagePushedAt", 0)\<close> is a \<^verbatim>\<open>datetime\<close> for an image
  with a time stamp and the \<^verbatim>\<open>int\<close> 0 for one without. Python 3 orders two
  \<^verbatim>\<open>datetime\<close>s and two \<^verbatim>\<open>int\<close>s, and raises \<^verbatim>\<open>TypeError\<close> on \<^verbatim>\<open><\<close> between an
  \<^verbatim>\<open>int\<close> and a \<^verbatim>\<open>datetime\<close>.
\<close>

datatype pyval = PyInt int | PyDatetime int

definition push_key :: "image_detail \<Rightarrow> pyval" where
  "push_key x = (case imagePushedAt x of None \<Rightarrow> PyInt 0 | Some t \<Rightarrow> PyDatetime t)"

fun py_lt :: "pyval \<Rightarrow> pyval \<Rightarrow> exn + bool" where
  "py_lt (PyInt a) (PyInt b) = Inr (a < b)"
| "py_lt (PyDatetime a) (PyDatetime b) = Inr (a < b)"
| "py_lt (PyInt a) (PyDatetime b) = Inl TypeError"
| "py_lt (PyDatetime a) (PyInt b) = Inl TypeError"

text \<open>
  \<^verbatim>\<open>sorted(images, key=..., reverse=True)\<close>: a stable sort, newest first, that
  compares keys with \<^verbatim>\<open><\<close> only and ends with the exception of the first comparison
  that raises. Images with equal keys keep the order of the input (\<^verbatim>\<open>reverse=True\<close>
  keeps the sort stable), so an image goes in front of the first one that is not
  newer than it.
\<close>

fun insert_newest_first :: "image_detail \<Rightarrow> image_detail list \<Rightarrow> exn + image_detail list" where
  "insert_newest_first x [] = Inr [x]"
| "insert_newest_first x (y # ys) =
     (case py_lt (push_key x) (push_key y) of
        Inl e \<Rightarrow> Inl e
      | Inr older \<Rightarrow>
          (if older
           then (case insert_newest_first x ys of Inl e \<Rightarrow> Inl e | Inr zs \<Rightarrow> Inr (y # zs))
           else Inr (x # y # ys)))"

fun sorted_newest_first :: "image_detail list \<Rightarrow> exn + image_detail list" where
  "sorted_newest_first [] = Inr []"
| "sorted_newest_first (x # xs) =
     (case sorted_newest_first xs of Inl e \<Rightarrow> Inl e | Inr ys \<Rightarrow> insert_newest_first x ys)"

text \<open>
  The slice \<^verbatim>\<open>xs[k:]\<close>: a negative start counts from the end, and the start is
  clipped to the list.
\<close>

definition slice_from :: "int \<Rightarrow> 'a list \<Rightarrow> 'a list" where
  "slice_from k xs =
     (let n = int (length xs);
          start = (if k < 0 then max 0 (n + k) else min k n)
      in drop (nat start) xs)"

text \<open>Lines 94 to 97: the digests of the images that have one.\<close>

fun collect_image_ids :: "image_detail list \<Rightarrow> string list" where
  "collect_image_ids [] = []"
| "collect_image_ids (img # rest) =
     (case imageDigest img of
        Some d \<Rightarrow> d # collect_image_ids rest
      | None \<Rightarrow> collect_image_ids rest)"

text \<open>
  \<^verbatim>\<open>process_repository\<close>: the whole body is inside \<^verbatim>\<open>try ... except Exception\<close>, so it
  returns \<^verbatim>\<open>None\<close> whatever happens; the model returns what it did.
\<close>

definition process_repository :: "ecr_client \<Rightarrow> string \<Rightarrow> int \<Rightarrow> cleanup_effects \<Rightarrow> cleanup_effects" where
  "process_repository ecr repo_name keep_count st0 =
     (let st1 = call (DescribeImages repo_name) st0
      in case describe_images ecr repo_name of
           Inl e \<Rightarrow> logf ERROR (ErrorProcessing repo_name e) st1
         | Inr images \<Rightarrow>
             (case sorted_newest_first images of
                Inl e \<Rightarrow> logf ERROR (ErrorProcessing repo_name e) st1
              | Inr sorted_images \<Rightarrow>
                  (let images_to_delete = slice_from keep_count sorted_images
                   in if images_to_delete \<noteq> []
                      then (let image_ids = collect_image_ids images_to_delete
                            in if image_ids \<noteq> []
                               then (let st2 = call (BatchDeleteImage repo_name image_ids) st1
                                     in case batch_delete_image ecr repo_name image_ids of
                                          Inl e \<Rightarrow> logf ERROR (ErrorProcessing repo_name e) st2
                                        | Inr ack \<Rightarrow>
                                            logs [(INFO, DeletedOld (length image_ids) repo_name),
                                                  (INFO, KeptRecent (min (int (length sorted_images)) keep_count))] st2)
                               else st1)
                      else logf INFO (WithinKeepLimit repo_name (length sorted_images)) st1)))"

text \<open>
  \<^verbatim>\<open>cleanup_ecr_images(region, keep_count, repository_name)\<close>, with the client in place
  of the region. \<^verbatim>\<open>RepositoryNotFoundException\<close> is the \<^verbatim>\<open>ClientError\<close> with that code;
  any other exception of the lookup leaves the function.
\<close>

definition cleanup_ecr_images :: "ecr_client \<Rightarrow> int \<Rightarrow> string \<Rightarrow> unit outcome \<times> cleanup_effects" where
  "cleanup_ecr_images ecr keep_count repository_name =
     (let st0 = call (DescribeRepositories repository_name) no_effects
      in case describe_repositories ecr repository_name of
           Inl e \<Rightarrow>
             (if e = ClientError ''RepositoryNotFoundException''
              then (Returned (), logf INFO (RepositoryNotFoundSkipping repository_name) st0)
              else (Raised e, st0))
         | Inr found \<Rightarrow>
             (Returned (),
              process_repository ecr repository_name keep_count
                (logf INFO (ProcessingRepository repository_name) st0)))"

section \<open>\<^verbatim>\<open>test_agent.py\<close>\<close>

text \<open>
  The result of \<^verbatim>\<open>invoke_agent_runtime\<close> is a dictionary that may have a streaming body
  under \<^verbatim>\<open>response\<close>, a value under \<^verbatim>\<open>payload\<close> (\<^verbatim>\<open>bytes\<close> or \<^verbatim>\<open>str\<close>), a
  \<^verbatim>\<open>statusCode\<close> and a \<^verbatim>\<open>runtimeSessionId\<close>. A streaming body is what its \<^verbatim>\<open>read()\<close>
  gives. Decoding UTF-8 and parsing JSON are library functions and parameters of the
  model.
\<close>

type_synonym bytes = "char list"

datatype json =
    JNull
  | JBool bool
  | JNumber string
  | JString string
  | JArray "json list"
  | JObject "(string \<times> json) list"

datatype streaming_body = StreamingBody (read: "exn + bytes")

datatype payload_value = PayloadBytes bytes | PayloadStr string

record invoke_response =
  inv_response :: "streaming_body option"
  inv_payload :: "payload_value option"
  inv_statusCode :: "int option"
  inv_runtimeSessionId :: "string option"

record runtime_client =
  invoke_agent_runtime :: "string \<Rightarrow> string \<Rightarrow> string \<Rightarrow> exn + invoke_response"

record pylib =
  decode_utf8 :: "bytes \<Rightarrow> exn + string"
  loads :: "string \<Rightarrow> exn + json"

datatype test_msg =
    RuntimeNotFound string
  | EnsureDeployed
  | FoundAgentArn string
  | ErrorFindingRuntime exn
  | RuntimeStatus string
  | NotReady string
  | CouldNotCheckStatus exn
  | TestingAgent string
  | AgentArnLine string
  | RegionLine string
  | Rule60
  | Question nat nat string
  | Rule40
  | ResponseValue json
  | ResponseJson json
  | ResponseText string
  | TestPassedHttp int
  | SessionId string
  | TestFailed exn
  | ClosingRule60
  | AllTestsPassed
  | SomeTestsFailed

type_synonym test_effects = "(control_call, test_msg) effects"

text \<open>The ten test cases, each the value of its \<^verbatim>\<open>prompt\<close> key.\<close>

definition test_cases :: "string list" where
  "test_cases =
     [''What is 2 + 2?'',
      ''Calculate 15 * 7'',
      ''What is 100 / 4?'',
      ''What is the square root of 16?'',
      ''Calculate (5 + 3) * 2'',
      ''Hello, how are you?'',
      ''What can you help me with?'',
      ''Explain what 2^3 equals'',
      ''Can you solve 25 - 8?'',
      ''What is 0.5 + 0.3?'']"

text \<open>
  \<^verbatim>\<open>json.dumps({"prompt": p})\<close> for a prompt without a character that JSON escapes,
  as the ten prompts are.
\<close>

definition dumps :: "string \<Rightarrow> string" where
  "dumps p = ''{'' @ [CHR 0x22] @ ''prompt'' @ [CHR 0x22] @ '': '' @ [CHR 0x22] @ p @ [CHR 0x22] @ ''}''"

text \<open>Lines 61 to 65: the ARN and the id of the first runtime with the target name.\<close>

fun find_runtime :: "string \<Rightarrow> agent_runtime list \<Rightarrow> (string \<times> string) option" where
  "find_runtime agent_name [] = None"
| "find_runtime agent_name (runtime # rest) =
     (if agentRuntimeName runtime = agent_name
      then Some (agentRuntimeArn runtime, agentRuntimeId runtime)
      else find_runtime agent_name rest)"

text \<open>
  Lines 137 to 148: what is logged of a parsed response. A dictionary parsed from JSON
  keeps the last value of a repeated key.
\<close>

definition show_json :: "json \<Rightarrow> test_msg" where
  "show_json response_json =
     (case response_json of
        JObject items \<Rightarrow>
          (case map_of (rev items) ''content'' of
             Some v \<Rightarrow> ResponseValue v
           | None \<Rightarrow>
               (case map_of (rev items) ''message'' of
                  Some v \<Rightarrow> ResponseValue v
                | None \<Rightarrow>
                    (case map_of (rev items) ''text'' of
                       Some v \<Rightarrow> ResponseValue v
                     | None \<Rightarrow> ResponseJson response_json)))
      | other \<Rightarrow> ResponseValue other)"

text \<open>
  Lines 129 to 162: the part of the \<^verbatim>\<open>try\<close> body after the invocation. It gives the
  lines it logs, or the exception that leaves it; only \<^verbatim>\<open>JSONDecodeError\<close> of
  \<^verbatim>\<open>loads\<close> is caught inside.
\<close>

definition show_response :: "pylib \<Rightarrow> invoke_response \<Rightarrow> exn + (level \<times> test_msg) list" where
  "show_response lib response =
     (case inv_response response of
        Some streaming_body \<Rightarrow>
          (case read streaming_body of
             Inl e \<Rightarrow> Inl e
           | Inr raw \<Rightarrow>
               (case decode_utf8 lib raw of
                  Inl e \<Rightarrow> Inl e
                | Inr response_text \<Rightarrow>
                    (case loads lib response_text of
                       Inl JSONDecodeError \<Rightarrow> Inr [(INFO, ResponseText response_text)]
                     | Inl e \<Rightarrow> Inl e
                     | Inr response_json \<Rightarrow> Inr [(INFO, show_json response_json)])))
      | None \<Rightarrow>
          (case inv_payload response of
             Some (PayloadBytes raw) \<Rightarrow>
               (case decode_utf8 lib raw of
                  Inl e \<Rightarrow> Inl e
                | Inr response_text \<Rightarrow> Inr [(INFO, ResponseText response_text)])
           | Some (PayloadStr response_text) \<Rightarrow> Inr [(INFO, ResponseText response_text)]
           | None \<Rightarrow>
               Inr [(INFO, TestPassedHttp (case inv_statusCode response of None \<Rightarrow> 200 | Some c \<Rightarrow> c)),
                    (INFO, SessionId (case inv_runtimeSessionId response of None \<Rightarrow> ''N/A'' | Some s \<Rightarrow> s))]))"

text \<open>Lines 121 to 162: the body of the \<^verbatim>\<open>try\<close> of one test case.\<close>

definition run_case :: "runtime_client \<Rightarrow> pylib \<Rightarrow> string \<Rightarrow> string \<Rightarrow> exn + (level \<times> test_msg) list" where
  "run_case client lib agent_arn prompt =
     (case invoke_agent_runtime client agent_arn ''DEFAULT'' (dumps prompt) of
        Inl e \<Rightarrow> Inl e
      | Inr response \<Rightarrow> show_response lib response)"

text \<open>
  The loop of lines 115 to 166 over the remaining test cases, with the number of the
  next case, \<^verbatim>\<open>all_passed\<close> and the effects so far. The handler of a case logs the
  exception and sets \<^verbatim>\<open>all_passed = False\<close>; nothing else assigns \<^verbatim>\<open>all_passed\<close>.
\<close>

fun run_tests :: "runtime_client \<Rightarrow> pylib \<Rightarrow> string \<Rightarrow> nat \<Rightarrow> nat \<Rightarrow> string list \<Rightarrow> bool \<times> test_effects \<Rightarrow> bool \<times> test_effects" where
  "run_tests client lib agent_arn n i [] (all_passed, st) = (all_passed, st)"
| "run_tests client lib agent_arn n i (prompt # rest) (all_passed, st) =
     (let st1 = call (InvokeAgentRuntime agent_arn ''DEFAULT'' (dumps prompt))
                  (logs [(INFO, Question i n prompt), (INFO, Rule40)] st)
      in case run_case client lib agent_arn prompt of
           Inl e \<Rightarrow> run_tests client lib agent_arn n (Suc i) rest (False, logf ERROR (TestFailed e) st1)
         | Inr lg \<Rightarrow> run_tests client lib agent_arn n (Suc i) rest (all_passed, logs lg st1))"

text \<open>
  \<^verbatim>\<open>test_agent(agent_name, region)\<close>, with the two clients in place of the ones the
  script builds from the region. \<^verbatim>\<open>if not agent_arn\<close> holds when no runtime has the
  name and when the ARN found is the empty string.
\<close>

definition test_agent :: "control_client \<Rightarrow> runtime_client \<Rightarrow> pylib \<Rightarrow> string \<Rightarrow> string \<Rightarrow> bool outcome \<times> test_effects" where
  "test_agent control client lib agent_name region =
     (let st0 = call ListAgentRuntimes no_effects;
          not_found = (Returned False, logs [(ERROR, RuntimeNotFound agent_name), (ERROR, EnsureDeployed)] st0)
      in case list_agent_runtimes control of
           Inl e \<Rightarrow> (Returned False, logf ERROR (ErrorFindingRuntime e) st0)
         | Inr runtimes \<Rightarrow>
             (case find_runtime agent_name runtimes of
                None \<Rightarrow> not_found
              | Some (agent_arn, agent_id) \<Rightarrow>
                  (if agent_arn = [] then not_found
                   else (let st1 = call (GetAgentRuntime agent_id) (logf INFO (FoundAgentArn agent_arn) st0)
                         in case get_agent_runtime control agent_id of
                              Inl e \<Rightarrow> (Returned False, logf ERROR (CouldNotCheckStatus e) st1)
                            | Inr status \<Rightarrow>
                                (let st2 = logf INFO (RuntimeStatus status) st1
                                 in if status \<noteq> ''READY''
                                    then (Returned False, logf ERROR (NotReady status) st2)
                                    else (let st3 = logs [(INFO, TestingAgent agent_name), (INFO, AgentArnLine agent_arn),
                                                          (INFO, RegionLine region), (INFO, Rule60)] st2
                                          in case run_tests client lib agent_arn (length test_cases) 1 test_cases (True, st3) of
                                               (all_passed, st4) \<Rightarrow>
                                                 (let st5 = logf INFO ClosingRule60 st4
                                                  in if all_passed
                                                     then (Returned True, logf INFO AllTestsPassed st5)
                                                     else (Returned False, logf ERROR SomeTestsFailed st5))))))))"

section \<open>Vocabulary of the claims\<close>

subsection \<open>The cleanup\<close>

text \<open>
  An image is dated when it has a time stamp. A list mixes keys when it holds a dated
  and an undated image, so that its sort keys are of two Python types.
\<close>

definition dated :: "image_detail \<Rightarrow> bool" where
  "dated x = (imagePushedAt x \<noteq> None)"

definition mixed_keys :: "image_detail list \<Rightarrow> bool" where
  "mixed_keys images = (list_ex dated images \<and> list_ex (\<lambda>x. \<not> dated x) images)"

text \<open>
  The order the claims speak of: by \<^verbatim>\<open>pushedAt\<close> descending, an image without a time
  stamp counting as 0, images of equal time in the order of the listing.
\<close>

definition stamp :: "image_detail \<Rightarrow> int" where
  "stamp x = (case imagePushedAt x of None \<Rightarrow> 0 | Some t \<Rightarrow> t)"

definition newest_first :: "image_detail list \<Rightarrow> image_detail list" where
  "newest_first images = sort_key (\<lambda>x. - stamp x) images"

text \<open>The digests of the images of a list that have one, in the order of the list.\<close>

definition digests_of :: "image_detail list \<Rightarrow> string list" where
  "digests_of xs = map (the \<circ> imageDigest) (filter (\<lambda>x. imageDigest x \<noteq> None) xs)"

text \<open>The batch delete for a list of digests: one call, and none for the empty list.\<close>

definition delete_calls :: "string \<Rightarrow> string list \<Rightarrow> ecr_call list" where
  "delete_calls repo_name ids = (if ids = [] then [] else [BatchDeleteImage repo_name ids])"

text \<open>
  For a keep count \<open>k \<ge> 0\<close>: the first \<open>k\<close> images of the order are kept, the
  rest is the deletion set.
\<close>

definition kept_images :: "int \<Rightarrow> image_detail list \<Rightarrow> image_detail list" where
  "kept_images keep_count images = take (nat keep_count) (newest_first images)"

definition deletion_set :: "int \<Rightarrow> image_detail list \<Rightarrow> image_detail list" where
  "deletion_set keep_count images = drop (nat keep_count) (newest_first images)"

text \<open>The last \<open>m\<close> images of the order (all of them when there are fewer).\<close>

definition oldest :: "nat \<Rightarrow> image_detail list \<Rightarrow> image_detail list" where
  "oldest m images = drop (length images - min (length images) m) (newest_first images)"

text \<open>Concrete registries for the examples.\<close>

definition example_ecr :: "exn + unit \<Rightarrow> exn + image_detail list \<Rightarrow> ecr_client" where
  "example_ecr lookup listing =
     \<lparr>describe_repositories = (\<lambda>r. lookup),
      describe_images = (\<lambda>r. listing),
      batch_delete_image = (\<lambda>r ids. Inr ())\<rparr>"

definition pushed :: "string \<Rightarrow> int \<Rightarrow> image_detail" where
  "pushed d t = \<lparr>imageDigest = Some d, imagePushedAt = Some t\<rparr>"

definition undated :: "string \<Rightarrow> image_detail" where
  "undated d = \<lparr>imageDigest = Some d, imagePushedAt = None\<rparr>"

text \<open>Twelve images, three of them without a time stamp.\<close>

definition twelve_images :: "image_detail list" where
  "twelve_images =
     [pushed ''d1'' 1, undated ''u1'', pushed ''d2'' 2, pushed ''d3'' 3, pushed ''d4'' 4,
      undated ''u2'', pushed ''d5'' 5, pushed ''d6'' 6, pushed ''d7'' 7, pushed ''d8'' 8,
      pushed ''d9'' 9, undated ''u3'']"

subsection \<open>The test cases\<close>

fun is_invoke :: "control_call \<Rightarrow> bool" where
  "is_invoke (InvokeAgentRuntime a q p) = True"
| "is_invoke c = False"

text \<open>
  The lines that one test case, numbered \<open>i\<close> of \<open>n\<close>, adds to the log: its
  heading, then either what the response shows or the error of the exception.
\<close>

definition case_log :: "runtime_client \<Rightarrow> pylib \<Rightarrow> string \<Rightarrow> nat \<Rightarrow> nat \<times> string \<Rightarrow> (level \<times> test_msg) list" where
  "case_log client lib agent_arn n ip =
     [(INFO, Question (fst ip) n (snd ip)), (INFO, Rule40)] @
     (case run_case client lib agent_arn (snd ip) of
        Inl e \<Rightarrow> [(ERROR, TestFailed e)]
      | Inr lg \<Rightarrow> lg)"

text \<open>
  When a test case raises, said without the log lines: the invocation raises, or
  reading or decoding the body raises, or \<^verbatim>\<open>loads\<close> raises anything but
  \<^verbatim>\<open>JSONDecodeError\<close>, or decoding a \<^verbatim>\<open>bytes\<close> payload raises. What the response says
  is not looked at.
\<close>

definition decoding_raises :: "pylib \<Rightarrow> invoke_response \<Rightarrow> bool" where
  "decoding_raises lib response =
     (case inv_response response of
        Some streaming_body \<Rightarrow>
          (case read streaming_body of
             Inl e \<Rightarrow> True
           | Inr raw \<Rightarrow>
               (case decode_utf8 lib raw of
                  Inl e \<Rightarrow> True
                | Inr response_text \<Rightarrow>
                    (case loads lib response_text of
                       Inl e \<Rightarrow> e \<noteq> JSONDecodeError
                     | Inr response_json \<Rightarrow> False)))
      | None \<Rightarrow>
          (case inv_payload response of
             Some (PayloadBytes raw) \<Rightarrow> isl (decode_utf8 lib raw)
           | Some (PayloadStr response_text) \<Rightarrow> False
           | None \<Rightarrow> False))"

definition case_raises :: "runtime_client \<Rightarrow> pylib \<Rightarrow> string \<Rightarrow> string \<Rightarrow> bool" where
  "case_raises client lib agent_arn prompt =
     (case invoke_agent_runtime client agent_arn ''DEFAULT'' (dumps prompt) of
        Inl e \<Rightarrow> True
      | Inr response \<Rightarrow> decoding_raises lib response)"

text \<open>Concrete runtimes and library functions for the examples.\<close>

definition status_only :: invoke_response where
  "status_only =
     \<lparr>inv_response = None, inv_payload = None, inv_statusCode = Some 200, inv_runtimeSessionId = None\<rparr>"

definition streamed :: "bytes \<Rightarrow> invoke_response" where
  "streamed raw =
     \<lparr>inv_response = Some (StreamingBody (Inr raw)), inv_payload = None,
      inv_statusCode = None, inv_runtimeSessionId = None\<rparr>"

text \<open>A library that decodes ASCII only and parses no text but \<^verbatim>\<open>5\<close>.\<close>

definition example_lib :: pylib where
  "example_lib =
     \<lparr>decode_utf8 = (\<lambda>raw. Inr raw),
      loads = (\<lambda>t. if t = ''5'' then Inr (JNumber ''5'') else Inl JSONDecodeError)\<rparr>"

text \<open>A runtime whose transport fails on the second prompt and on no other.\<close>

definition one_transport_error :: runtime_client where
  "one_transport_error =
     \<lparr>invoke_agent_runtime =
        (\<lambda>a q payload. if payload = dumps ''Calculate 15 * 7''
                        then Inl (OtherException ''transport error'')
                        else Inr status_only)\<rparr>"

text \<open>A runtime that answers \<^verbatim>\<open>5\<close> to every prompt.\<close>

definition always_five :: runtime_client where
  "always_five = \<lparr>invoke_agent_runtime = (\<lambda>a q payload. Inr (streamed ''5''))\<rparr>"

section \<open>Properties of \<^verbatim>\<open>deploy_agent\<close>\<close>

subsection \<open>Effects and the scan of the listing\<close>


lemma calls_simps:
  "calls (call c st) = calls st @ [c]"
  "calls (logf l m st) = calls st"
  "calls (logs ms st) = calls st"
  "calls (write_file f s st) = calls st"
  "calls no_effects = []"
  by (simp_all add: call_def logf_def logs_def write_file_def no_effects_def)

lemma log_simps:
  "log (call c st) = log st"
  "log (logf l m st) = log st @ [(l, m)]"
  "log (logs ms st) = log st @ ms"
  "log (write_file f s st) = log st"
  "log no_effects = []"
  by (simp_all add: call_def logf_def logs_def write_file_def no_effects_def)

lemma written_simps:
  "written (call c st) = written st"
  "written (logf l m st) = written st"
  "written (logs ms st) = written st"
  "written (write_file f s st) = written st @ [(f, s)]"
  "written no_effects = []"
  by (simp_all add: call_def logf_def logs_def write_file_def no_effects_def)

lemmas effects_simps = calls_simps log_simps written_simps

lemma scan_agents_absent:
  "agent_name \<notin> set (map agentRuntimeName agents) \<Longrightarrow> snd (scan_agents agent_name agents) = None"
  by (induction agents) (auto split: prod.splits)

lemma scan_agents_present:
  "agent_name \<in> set (map agentRuntimeName agents) \<Longrightarrow>
     \<exists>agent. snd (scan_agents agent_name agents) = Some agent \<and> agentRuntimeName agent = agent_name \<and> agent \<in> set agents"
  by (induction agents) (auto split: prod.splits)

lemma find_existing_absent:
  assumes "list_agent_runtimes client = Inr agents" "agent_name \<notin> set (map agentRuntimeName agents)"
  shows "fst (find_existing client agent_name st) = None"
    and "calls (snd (find_existing client agent_name st)) = calls st @ [ListAgentRuntimes]"
    and "written (snd (find_existing client agent_name st)) = written st"
  using assms scan_agents_absent[of agent_name agents]
  by (auto simp: find_existing_def effects_simps split: prod.splits)

lemma find_existing_present:
  assumes "list_agent_runtimes client = Inr agents" "agent_name \<in> set (map agentRuntimeName agents)"
  shows "\<exists>agent. fst (find_existing client agent_name st) = Some agent \<and> agentRuntimeName agent = agent_name \<and> agent \<in> set agents"
    and "calls (snd (find_existing client agent_name st)) = calls st @ [ListAgentRuntimes]"
    and "written (snd (find_existing client agent_name st)) = written st"
  using assms scan_agents_present[of agent_name agents]
  by (auto simp: find_existing_def effects_simps split: prod.splits)

lemma find_existing_fails:
  assumes "list_agent_runtimes client = Inl e"
  shows "find_existing client agent_name st = (None, logf WARNING (ErrorListing e) (call ListAgentRuntimes st))"
  using assms by (simp add: find_existing_def)

text \<open>
  Claim C2. When \<^verbatim>\<open>role_arn.txt\<close> exists, the listing succeeds and holds a runtime with
  the target name, and \<^verbatim>\<open>auto_update\<close> is false, \<^verbatim>\<open>deploy_agent\<close> fails with the
  conflict: it logs the error "already exists and auto-update is disabled" as its last
  line and exits with status 1. The listing is the only remote call (no create, no
  update) and no file is written.
\<close>

theorem conflict_without_auto_update:
  assumes "list_agent_runtimes client = Inr agents"
    and "agent_name \<in> set (map agentRuntimeName agents)"
  shows "fst (deploy_agent str_strip (Some content) client agent_name container_uri False) = Exited 1
       \<and> last (log (snd (deploy_agent str_strip (Some content) client agent_name container_uri False)))
           = (ERROR, ExistsAutoUpdateDisabled agent_name)
       \<and> calls (snd (deploy_agent str_strip (Some content) client agent_name container_uri False)) = [ListAgentRuntimes]
       \<and> written (snd (deploy_agent str_strip (Some content) client agent_name container_uri False)) = []"
proof -
  let ?st = "start_log agent_name (str_strip content)"
  obtain agent st1 where f: "find_existing client agent_name ?st = (Some agent, st1)"
    using find_existing_present(1)[OF assms, of ?st] by (cases "find_existing client agent_name ?st") auto
  have c: "calls st1 = [ListAgentRuntimes]" and w: "written st1 = []"
    using find_existing_present(2,3)[OF assms, of ?st] f by (simp_all add: effects_simps start_log_def)
  have "deploy_try client agent_name container_uri False (str_strip content) ?st
          = (Exited 1, logf ERROR (ExistsAutoUpdateDisabled agent_name) (logf INFO (AgentExists agent_name True False) st1))"
    by (simp add: deploy_try_def f)
  then show ?thesis
    by (simp add: deploy_agent_def effects_simps c w)
qed




subsection \<open>The two paths of the \<^verbatim>\<open>try\<close> body\<close>

lemma deploy_agent_unfold:
  "deploy_agent str_strip (Some content) client agent_name container_uri auto_update =
     (case deploy_try client agent_name container_uri auto_update (str_strip content) (start_log agent_name (str_strip content)) of
        (Raised (ClientError code), st') \<Rightarrow> (Exited 1, logf ERROR (DeploymentFailed (ClientError code)) st')
      | r \<Rightarrow> r)"
  by (simp add: deploy_agent_def Let_def)

lemma start_log_effects:
  "calls (start_log a r) = []" "written (start_log a r) = []"
  by (simp_all add: start_log_def effects_simps)

lemma deploy_try_create_path:
  assumes "fst (find_existing client agent_name st) = None"
  shows "deploy_try client agent_name container_uri auto_update role_arn st =
    (let st3 = call (CreateAgentRuntime agent_name container_uri ''PUBLIC'' role_arn)
                 (logf INFO (AgentExists agent_name False auto_update) (snd (find_existing client agent_name st)))
     in case create_agent_runtime client agent_name container_uri ''PUBLIC'' role_arn of
          Inl e \<Rightarrow>
            (if e = ClientError ''ConflictException'' \<and> auto_update
             then (Exited 1, logs [(INFO, ExistsNotDetected), (ERROR, CannotUpdateNoId)] st3)
             else (Raised e, st3))
        | Inr response \<Rightarrow> save_deployment response container_uri st3)"
  using assms
  by (cases "find_existing client agent_name st")
     (auto simp: deploy_try_def Let_def split: sum.splits exn.splits)

lemma deploy_try_update_path:
  assumes "fst (find_existing client agent_name st) = Some agent"
  shows "deploy_try client agent_name container_uri True role_arn st =
    (let st3 = call (UpdateAgentRuntime (agentRuntimeId agent) container_uri ''PUBLIC'' role_arn)
                 (logf INFO (UpdatingExisting agent_name)
                    (logf INFO (AgentExists agent_name True True) (snd (find_existing client agent_name st))))
     in case update_agent_runtime client (agentRuntimeId agent) container_uri ''PUBLIC'' role_arn of
          Inl e \<Rightarrow> (Raised e, st3)
        | Inr response \<Rightarrow> save_deployment response container_uri st3)"
  using assms
  by (cases "find_existing client agent_name st") (auto simp: deploy_try_def Let_def)

text \<open>
  Claim C1, amended. The listing succeeds without the target name and the create call
  raises the \<^verbatim>\<open>ClientError\<close> with code \<^verbatim>\<open>ConflictException\<close>. Then the run exits with
  status 1 whatever \<^verbatim>\<open>auto_update\<close> is, its calls are the listing and the create call,
  so no update is issued, and nothing is written. With \<^verbatim>\<open>auto_update\<close> the last log
  line is the error "cannot update, unable to find agentRuntimeId". Without
  \<^verbatim>\<open>auto_update\<close> the handler of the create call re-raises, so the \<^verbatim>\<open>try\<close> body ends
  with the very exception that create raised; it does not reach the caller: the
  handler of lines 137 to 139 catches it, reports it unchanged in the last log line and
  exits.
\<close>

theorem create_conflict_after_absent_listing:
  assumes "list_agent_runtimes client = Inr agents"
    and "agent_name \<notin> set (map agentRuntimeName agents)"
    and "create_agent_runtime client agent_name container_uri ''PUBLIC'' (str_strip content)
           = Inl (ClientError ''ConflictException'')"
  shows "fst (deploy_agent str_strip (Some content) client agent_name container_uri True) = Exited 1
       \<and> last (log (snd (deploy_agent str_strip (Some content) client agent_name container_uri True)))
           = (ERROR, CannotUpdateNoId)
       \<and> calls (snd (deploy_agent str_strip (Some content) client agent_name container_uri True))
           = [ListAgentRuntimes, CreateAgentRuntime agent_name container_uri ''PUBLIC'' (str_strip content)]
       \<and> written (snd (deploy_agent str_strip (Some content) client agent_name container_uri True)) = []
       \<and> fst (deploy_try client agent_name container_uri False (str_strip content) st)
           = Raised (ClientError ''ConflictException'')
       \<and> fst (deploy_agent str_strip (Some content) client agent_name container_uri False) = Exited 1
       \<and> last (log (snd (deploy_agent str_strip (Some content) client agent_name container_uri False)))
           = (ERROR, DeploymentFailed (ClientError ''ConflictException''))
       \<and> calls (snd (deploy_agent str_strip (Some content) client agent_name container_uri False))
           = [ListAgentRuntimes, CreateAgentRuntime agent_name container_uri ''PUBLIC'' (str_strip content)]
       \<and> written (snd (deploy_agent str_strip (Some content) client agent_name container_uri False)) = []"
proof -
  note fe = find_existing_absent[OF assms(1,2)]
  have t: "deploy_try client agent_name container_uri True (str_strip content) (start_log agent_name (str_strip content))
        = (Exited 1, logs [(INFO, ExistsNotDetected), (ERROR, CannotUpdateNoId)]
             (call (CreateAgentRuntime agent_name container_uri ''PUBLIC'' (str_strip content))
                (logf INFO (AgentExists agent_name False True)
                   (snd (find_existing client agent_name (start_log agent_name (str_strip content)))))))"
    by (simp add: deploy_try_create_path[OF fe(1)] assms(3))
  have f: "\<And>s. deploy_try client agent_name container_uri False (str_strip content) s
        = (Raised (ClientError ''ConflictException''),
             call (CreateAgentRuntime agent_name container_uri ''PUBLIC'' (str_strip content))
                (logf INFO (AgentExists agent_name False False)
                   (snd (find_existing client agent_name s))))"
    by (simp add: deploy_try_create_path[OF fe(1)] assms(3))
  show ?thesis
    by (simp add: deploy_agent_unfold t f effects_simps fe start_log_effects)
qed


subsection \<open>Failures of the control plane\<close>

lemma scan_agents_find:
  "snd (scan_agents agent_name agents) = find (\<lambda>a. agentRuntimeName a = agent_name) agents"
  by (induction agents) (auto split: prod.splits)

lemma find_existing_found:
  assumes "list_agent_runtimes client = Inr agents"
    and "find (\<lambda>a. agentRuntimeName a = agent_name) agents = Some agent"
  shows "fst (find_existing client agent_name st) = Some agent"
    and "calls (snd (find_existing client agent_name st)) = calls st @ [ListAgentRuntimes]"
    and "written (snd (find_existing client agent_name st)) = written st"
  using assms scan_agents_find[of agent_name agents]
  by (auto simp: find_existing_def effects_simps split: prod.splits)

lemma save_deployment_fst:
  "fst (save_deployment response container_uri st) =
     Returned \<lparr>info_agent_arn = rsp_agentRuntimeArn response,
               info_agent_id = rsp_agentRuntimeId response,
               info_ecr_uri = container_uri\<rparr>"
  by (simp add: save_deployment_def Let_def)

lemma list_failure_falls_back:
  assumes "list_agent_runtimes client = Inl e"
  shows "calls (snd (deploy_agent str_strip (Some content) client agent_name container_uri auto_update))
           = [ListAgentRuntimes, CreateAgentRuntime agent_name container_uri ''PUBLIC'' (str_strip content)]"
    and "(WARNING, ErrorListing e) \<in> set (log (snd (deploy_agent str_strip (Some content) client agent_name container_uri auto_update)))"
    and "create_agent_runtime client agent_name container_uri ''PUBLIC'' (str_strip content) = Inr response \<Longrightarrow>
         fst (deploy_agent str_strip (Some content) client agent_name container_uri auto_update)
           = Returned \<lparr>info_agent_arn = rsp_agentRuntimeArn response,
                       info_agent_id = rsp_agentRuntimeId response,
                       info_ecr_uri = container_uri\<rparr>"
proof -
  let ?role = "str_strip content"
  let ?st = "start_log agent_name ?role"
  have fe: "find_existing client agent_name ?st = (None, logf WARNING (ErrorListing e) (call ListAgentRuntimes ?st))"
    by (rule find_existing_fails[OF assms])
  then have n: "fst (find_existing client agent_name ?st) = None" by simp
  note t = deploy_try_create_path[OF n, of container_uri auto_update ?role]
  show "calls (snd (deploy_agent str_strip (Some content) client agent_name container_uri auto_update))
           = [ListAgentRuntimes, CreateAgentRuntime agent_name container_uri ''PUBLIC'' ?role]"
    by (cases "create_agent_runtime client agent_name container_uri ''PUBLIC'' ?role")
       (auto simp: deploy_agent_unfold t fe Let_def effects_simps start_log_effects save_deployment_def
             split: exn.splits)
  show "(WARNING, ErrorListing e) \<in> set (log (snd (deploy_agent str_strip (Some content) client agent_name container_uri auto_update)))"
    by (cases "create_agent_runtime client agent_name container_uri ''PUBLIC'' ?role")
       (auto simp: deploy_agent_unfold t fe Let_def effects_simps save_deployment_def
             split: exn.splits)
  show "fst (deploy_agent str_strip (Some content) client agent_name container_uri auto_update)
           = Returned \<lparr>info_agent_arn = rsp_agentRuntimeArn response,
                       info_agent_id = rsp_agentRuntimeId response,
                       info_ecr_uri = container_uri\<rparr>"
    if "create_agent_runtime client agent_name container_uri ''PUBLIC'' ?role = Inr response"
    using that by (simp add: deploy_agent_unfold t Let_def save_deployment_def)
qed

lemma update_failure_fatal:
  assumes "list_agent_runtimes client = Inr agents"
    and "find (\<lambda>a. agentRuntimeName a = agent_name) agents = Some agent"
    and "update_agent_runtime client (agentRuntimeId agent) container_uri ''PUBLIC'' (str_strip content) = Inl e"
  shows "fst (deploy_agent str_strip (Some content) client agent_name container_uri True) = fatal e"
    and "calls (snd (deploy_agent str_strip (Some content) client agent_name container_uri True))
           = [ListAgentRuntimes, UpdateAgentRuntime (agentRuntimeId agent) container_uri ''PUBLIC'' (str_strip content)]"
    and "written (snd (deploy_agent str_strip (Some content) client agent_name container_uri True)) = []"
    and "e = ClientError code \<Longrightarrow>
         last (log (snd (deploy_agent str_strip (Some content) client agent_name container_uri True))) = (ERROR, DeploymentFailed e)"
proof -
  let ?st = "start_log agent_name (str_strip content)"
  note fe = find_existing_found[OF assms(1,2), of ?st]
  note t = deploy_try_update_path[OF fe(1), of container_uri "str_strip content"]
  show "fst (deploy_agent str_strip (Some content) client agent_name container_uri True) = fatal e"
    by (cases e) (simp_all add: deploy_agent_unfold t assms(3) fatal_def)
  show "calls (snd (deploy_agent str_strip (Some content) client agent_name container_uri True))
           = [ListAgentRuntimes, UpdateAgentRuntime (agentRuntimeId agent) container_uri ''PUBLIC'' (str_strip content)]"
    by (cases e) (simp_all add: deploy_agent_unfold t assms(3) effects_simps fe start_log_effects)
  show "written (snd (deploy_agent str_strip (Some content) client agent_name container_uri True)) = []"
    by (cases e) (simp_all add: deploy_agent_unfold t assms(3) effects_simps fe start_log_effects)
  show "last (log (snd (deploy_agent str_strip (Some content) client agent_name container_uri True))) = (ERROR, DeploymentFailed e)"
    if "e = ClientError code"
    using that by (simp add: deploy_agent_unfold t assms(3) effects_simps)
qed

lemma find_existing_create_path:
  assumes "list_agent_runtimes client = Inl le
         \<or> (list_agent_runtimes client = Inr agents \<and> agent_name \<notin> set (map agentRuntimeName agents))"
  shows "fst (find_existing client agent_name st) = None"
    and "calls (snd (find_existing client agent_name st)) = calls st @ [ListAgentRuntimes]"
    and "written (snd (find_existing client agent_name st)) = written st"
  using assms find_existing_absent[where client = client and agents = agents and agent_name = agent_name and st = st]
    find_existing_fails[where client = client and e = le and agent_name = agent_name and st = st]
  by (auto simp: effects_simps)

lemma create_failure_fatal:
  assumes "list_agent_runtimes client = Inl le
         \<or> (list_agent_runtimes client = Inr agents \<and> agent_name \<notin> set (map agentRuntimeName agents))"
    and "create_agent_runtime client agent_name container_uri ''PUBLIC'' (str_strip content) = Inl e"
    and "e \<noteq> ClientError ''ConflictException''"
  shows "fst (deploy_agent str_strip (Some content) client agent_name container_uri auto_update) = fatal e"
    and "calls (snd (deploy_agent str_strip (Some content) client agent_name container_uri auto_update))
           = [ListAgentRuntimes, CreateAgentRuntime agent_name container_uri ''PUBLIC'' (str_strip content)]"
    and "written (snd (deploy_agent str_strip (Some content) client agent_name container_uri auto_update)) = []"
    and "e = ClientError code \<Longrightarrow>
         last (log (snd (deploy_agent str_strip (Some content) client agent_name container_uri auto_update))) = (ERROR, DeploymentFailed e)"
proof -
  let ?st = "start_log agent_name (str_strip content)"
  note fe = find_existing_create_path[OF assms(1), of ?st]
  note t = deploy_try_create_path[OF fe(1), of container_uri auto_update "str_strip content"]
  show "fst (deploy_agent str_strip (Some content) client agent_name container_uri auto_update) = fatal e"
    using assms(3) by (cases e) (simp_all add: deploy_agent_unfold t assms(2) fatal_def)
  show "calls (snd (deploy_agent str_strip (Some content) client agent_name container_uri auto_update))
           = [ListAgentRuntimes, CreateAgentRuntime agent_name container_uri ''PUBLIC'' (str_strip content)]"
    using assms(3) by (cases e) (simp_all add: deploy_agent_unfold t assms(2) effects_simps fe start_log_effects)
  show "written (snd (deploy_agent str_strip (Some content) client agent_name container_uri auto_update)) = []"
    using assms(3) by (cases e) (simp_all add: deploy_agent_unfold t assms(2) effects_simps fe start_log_effects)
  show "last (log (snd (deploy_agent str_strip (Some content) client agent_name container_uri auto_update))) = (ERROR, DeploymentFailed e)"
    if "e = ClientError code"
    using that assms(3) by (simp add: deploy_agent_unfold t assms(2) effects_simps)
qed

text \<open>
  Claim C3, amended. A failure \<open>e\<close> of the update call, or of the create call other
  than the naming conflict, is fatal and neither retried nor followed by another call:
  the calls are the listing and the one failed call, nothing is written, and the run
  ends as \<open>fatal e\<close> says (a \<^verbatim>\<open>ClientError\<close> is logged as it is in the last line
  and the run exits with status 1, any other exception leaves \<^verbatim>\<open>deploy_agent\<close>
  unchanged). That holds for the create call wherever it is reached: after a listing
  without the target name and after a listing that failed. A failure \<open>le\<close> of the
  listing is not propagated: it is logged as a warning, the runtime counts as absent
  and the run goes on to the create call, returning the record when that succeeds.
\<close>

theorem control_plane_failures:
  "(list_agent_runtimes client = Inl le \<longrightarrow>
      calls (snd (deploy_agent str_strip (Some content) client agent_name container_uri auto_update))
        = [ListAgentRuntimes, CreateAgentRuntime agent_name container_uri ''PUBLIC'' (str_strip content)]
    \<and> (WARNING, ErrorListing le) \<in> set (log (snd (deploy_agent str_strip (Some content) client agent_name container_uri auto_update)))
    \<and> (create_agent_runtime client agent_name container_uri ''PUBLIC'' (str_strip content) = Inr response \<longrightarrow>
         fst (deploy_agent str_strip (Some content) client agent_name container_uri auto_update)
           = Returned \<lparr>info_agent_arn = rsp_agentRuntimeArn response,
                       info_agent_id = rsp_agentRuntimeId response,
                       info_ecr_uri = container_uri\<rparr>))
 \<and> (list_agent_runtimes client = Inr agents
      \<and> find (\<lambda>a. agentRuntimeName a = agent_name) agents = Some agent
      \<and> update_agent_runtime client (agentRuntimeId agent) container_uri ''PUBLIC'' (str_strip content) = Inl e \<longrightarrow>
      fst (deploy_agent str_strip (Some content) client agent_name container_uri True) = fatal e
    \<and> calls (snd (deploy_agent str_strip (Some content) client agent_name container_uri True))
        = [ListAgentRuntimes, UpdateAgentRuntime (agentRuntimeId agent) container_uri ''PUBLIC'' (str_strip content)]
    \<and> written (snd (deploy_agent str_strip (Some content) client agent_name container_uri True)) = []
    \<and> (e = ClientError code \<longrightarrow>
         last (log (snd (deploy_agent str_strip (Some content) client agent_name container_uri True)))
           = (ERROR, DeploymentFailed e)))
 \<and> ((list_agent_runtimes client = Inl le
       \<or> (list_agent_runtimes client = Inr agents \<and> agent_name \<notin> set (map agentRuntimeName agents)))
      \<and> create_agent_runtime client agent_name container_uri ''PUBLIC'' (str_strip content) = Inl e
      \<and> e \<noteq> ClientError ''ConflictException'' \<longrightarrow>
      fst (deploy_agent str_strip (Some content) client agent_name container_uri auto_update) = fatal e
    \<and> calls (snd (deploy_agent str_strip (Some content) client agent_name container_uri auto_update))
        = [ListAgentRuntimes, CreateAgentRuntime agent_name container_uri ''PUBLIC'' (str_strip content)]
    \<and> written (snd (deploy_agent str_strip (Some content) client agent_name container_uri auto_update)) = []
    \<and> (e = ClientError code \<longrightarrow>
         last (log (snd (deploy_agent str_strip (Some content) client agent_name container_uri auto_update)))
           = (ERROR, DeploymentFailed e)))"
  (is "?listing \<and> ?update \<and> ?create")
proof (intro conjI)
  show ?listing
    by (intro conjI impI) (rule list_failure_falls_back | assumption)+
  show ?update
    by (intro conjI impI) (erule conjE | rule update_failure_fatal | assumption)+
  show ?create
    by (intro conjI impI) (erule conjE | rule create_failure_fatal | assumption)+
qed

subsection \<open>Examples\<close>

lemmas example_defs = example_control_def example_runtime_def example_response_def

text \<open>
  In the examples \<^verbatim>\<open>role_arn.txt\<close> holds \<^verbatim>\<open>role\<close>, a text without white space, which
  \<^verbatim>\<open>str.strip\<close> leaves as it is.
\<close>

text \<open>The hypotheses of C2 hold for a control plane that lists the runtime \<open>agent\<close>.\<close>

theorem conflict_without_auto_update_witness:
  "list_agent_runtimes (example_control (Inr [example_runtime]) (Inr example_response) (Inr ''READY''))
     = Inr [example_runtime]
   \<and> ''agent'' \<in> set (map agentRuntimeName [example_runtime])
   \<and> fst (deploy_agent (\<lambda>s. s) (Some ''role'') (example_control (Inr [example_runtime]) (Inr example_response) (Inr ''READY''))
            ''agent'' ''uri'' False) = Exited 1
   \<and> calls (snd (deploy_agent (\<lambda>s. s) (Some ''role'') (example_control (Inr [example_runtime]) (Inr example_response) (Inr ''READY''))
            ''agent'' ''uri'' False)) = [ListAgentRuntimes]
   \<and> written (snd (deploy_agent (\<lambda>s. s) (Some ''role'') (example_control (Inr [example_runtime]) (Inr example_response) (Inr ''READY''))
            ''agent'' ''uri'' False)) = []"
  using conflict_without_auto_update
          [where client = "example_control (Inr [example_runtime]) (Inr example_response) (Inr ''READY'')"
             and agents = "[example_runtime]" and agent_name = "''agent''" and str_strip = "\<lambda>s. s"
             and content = "''role''" and container_uri = "''uri''"]
  by (simp add: example_defs)

text \<open>
  Claim C1 says that without \<^verbatim>\<open>auto_update\<close> the conflict error is propagated
  unchanged, and that with it the result is an error distinct from that. Here the
  listing is empty and the create call raises the conflict: without \<^verbatim>\<open>auto_update\<close>
  the run does not end with the \<^verbatim>\<open>ClientError\<close> but with exit status 1, the ending
  it also has with \<^verbatim>\<open>auto_update\<close>.
\<close>

theorem conflict_error_ends_in_exit:
  "list_agent_runtimes (example_control (Inr []) (Inl (ClientError ''ConflictException'')) (Inr ''READY'')) = Inr []
   \<and> create_agent_runtime (example_control (Inr []) (Inl (ClientError ''ConflictException'')) (Inr ''READY''))
        ''agent'' ''uri'' ''PUBLIC'' ''role'' = Inl (ClientError ''ConflictException'')
   \<and> fst (deploy_agent (\<lambda>s. s) (Some ''role'') (example_control (Inr []) (Inl (ClientError ''ConflictException'')) (Inr ''READY''))
            ''agent'' ''uri'' False) \<noteq> Raised (ClientError ''ConflictException'')
   \<and> fst (deploy_agent (\<lambda>s. s) (Some ''role'') (example_control (Inr []) (Inl (ClientError ''ConflictException'')) (Inr ''READY''))
            ''agent'' ''uri'' False) = Exited 1
   \<and> fst (deploy_agent (\<lambda>s. s) (Some ''role'') (example_control (Inr []) (Inl (ClientError ''ConflictException'')) (Inr ''READY''))
            ''agent'' ''uri'' True) = Exited 1"
  by (simp add: example_defs deploy_agent_def deploy_try_def find_existing_def
                start_log_def call_def logf_def logs_def no_effects_def Let_def)

text \<open>
  The hypotheses of C1 as amended hold for an empty listing and a create call that
  conflicts.
\<close>

theorem create_conflict_after_absent_listing_witness:
  "list_agent_runtimes (example_control (Inr []) (Inl (ClientError ''ConflictException'')) (Inr ''READY'')) = Inr []
   \<and> ''agent'' \<notin> set (map agentRuntimeName [])
   \<and> create_agent_runtime (example_control (Inr []) (Inl (ClientError ''ConflictException'')) (Inr ''READY''))
        ''agent'' ''uri'' ''PUBLIC'' ''role'' = Inl (ClientError ''ConflictException'')
   \<and> fst (deploy_agent (\<lambda>s. s) (Some ''role'') (example_control (Inr []) (Inl (ClientError ''ConflictException'')) (Inr ''READY''))
            ''agent'' ''uri'' True) = Exited 1
   \<and> last (log (snd (deploy_agent (\<lambda>s. s) (Some ''role'') (example_control (Inr []) (Inl (ClientError ''ConflictException'')) (Inr ''READY''))
            ''agent'' ''uri'' True))) = (ERROR, CannotUpdateNoId)
   \<and> fst (deploy_agent (\<lambda>s. s) (Some ''role'') (example_control (Inr []) (Inl (ClientError ''ConflictException'')) (Inr ''READY''))
            ''agent'' ''uri'' False) = Exited 1
   \<and> last (log (snd (deploy_agent (\<lambda>s. s) (Some ''role'') (example_control (Inr []) (Inl (ClientError ''ConflictException'')) (Inr ''READY''))
            ''agent'' ''uri'' False))) = (ERROR, DeploymentFailed (ClientError ''ConflictException''))"
  using create_conflict_after_absent_listing
          [where client = "example_control (Inr []) (Inl (ClientError ''ConflictException'')) (Inr ''READY'')"
             and agents = "[]" and agent_name = "''agent''" and container_uri = "''uri''"
             and str_strip = "\<lambda>s. s" and content = "''role''" and st = no_effects]
  by (simp add: example_defs)

text \<open>
  Claim C3 says that a failure of any control-plane call, the listing included, is
  propagated unchanged, with no fallback. Here the listing raises a
  \<^verbatim>\<open>ThrottlingException\<close>; the run logs a warning, goes on to the create call and
  returns the deployment record.
\<close>

theorem list_failure_not_propagated:
  "list_agent_runtimes (example_control (Inl (ClientError ''ThrottlingException'')) (Inr example_response) (Inr ''READY''))
     = Inl (ClientError ''ThrottlingException'')
   \<and> deploy_agent (\<lambda>s. s) (Some ''role'')
        (example_control (Inl (ClientError ''ThrottlingException'')) (Inr example_response) (Inr ''READY''))
        ''agent'' ''uri'' True
     = (Returned \<lparr>info_agent_arn = ''arn:agent'', info_agent_id = ''agent-1'', info_ecr_uri = ''uri''\<rparr>,
        \<lparr>calls = [ListAgentRuntimes, CreateAgentRuntime ''agent'' ''uri'' ''PUBLIC'' ''role''],
         log = [(INFO, Deploying ''agent''), (INFO, PlatformArm64), (INFO, UsingRole ''role''),
                (WARNING, ErrorListing (ClientError ''ThrottlingException'')),
                (INFO, AgentExists ''agent'' False True),
                (INFO, DeployedOk), (INFO, AgentArnIs ''arn:agent''), (INFO, EcrUriIs ''uri'')],
         written = [(''deployment_info.txt'', deployment_info ''arn:agent'' ''agent-1'' ''uri'')]\<rparr>)"
  by (simp add: example_defs deploy_agent_def deploy_try_def find_existing_def save_deployment_def
                start_log_def call_def logf_def logs_def write_file_def no_effects_def Let_def)

text \<open>
  The parts of C3 as amended: a listing that times out before a create call that
  succeeds, an update that is refused, a create call that times out after an empty
  listing, and a create call that is refused after a listing that timed out.
\<close>

theorem control_plane_failures_witness:
  "(list_agent_runtimes (example_control (Inl (OtherException ''timeout'')) (Inr example_response) (Inr ''READY''))
      = Inl (OtherException ''timeout'')
    \<and> create_agent_runtime (example_control (Inl (OtherException ''timeout'')) (Inr example_response) (Inr ''READY''))
        ''agent'' ''uri'' ''PUBLIC'' ''role'' = Inr example_response
    \<and> fst (deploy_agent (\<lambda>s. s) (Some ''role'')
             (example_control (Inl (OtherException ''timeout'')) (Inr example_response) (Inr ''READY''))
             ''agent'' ''uri'' False)
        = Returned \<lparr>info_agent_arn = ''arn:agent'', info_agent_id = ''agent-1'', info_ecr_uri = ''uri''\<rparr>)
 \<and> (list_agent_runtimes (example_control (Inr [example_runtime]) (Inl (ClientError ''ValidationException'')) (Inr ''READY''))
      = Inr [example_runtime]
    \<and> find (\<lambda>a. agentRuntimeName a = ''agent'') [example_runtime] = Some example_runtime
    \<and> update_agent_runtime (example_control (Inr [example_runtime]) (Inl (ClientError ''ValidationException'')) (Inr ''READY''))
        (agentRuntimeId example_runtime) ''uri'' ''PUBLIC'' ''role'' = Inl (ClientError ''ValidationException'')
    \<and> fst (deploy_agent (\<lambda>s. s) (Some ''role'')
             (example_control (Inr [example_runtime]) (Inl (ClientError ''ValidationException'')) (Inr ''READY''))
             ''agent'' ''uri'' True) = Exited 1
    \<and> calls (snd (deploy_agent (\<lambda>s. s) (Some ''role'')
             (example_control (Inr [example_runtime]) (Inl (ClientError ''ValidationException'')) (Inr ''READY''))
             ''agent'' ''uri'' True))
        = [ListAgentRuntimes, UpdateAgentRuntime ''agent-1'' ''uri'' ''PUBLIC'' ''role''])
 \<and> (list_agent_runtimes (example_control (Inr []) (Inl (OtherException ''timeout'')) (Inr ''READY'')) = Inr []
    \<and> ''agent'' \<notin> set (map agentRuntimeName [])
    \<and> create_agent_runtime (example_control (Inr []) (Inl (OtherException ''timeout'')) (Inr ''READY''))
        ''agent'' ''uri'' ''PUBLIC'' ''role'' = Inl (OtherException ''timeout'')
    \<and> OtherException ''timeout'' \<noteq> ClientError ''ConflictException''
    \<and> fst (deploy_agent (\<lambda>s. s) (Some ''role'') (example_control (Inr []) (Inl (OtherException ''timeout'')) (Inr ''READY''))
             ''agent'' ''uri'' True) = Raised (OtherException ''timeout'')
    \<and> calls (snd (deploy_agent (\<lambda>s. s) (Some ''role'') (example_control (Inr []) (Inl (OtherException ''timeout'')) (Inr ''READY''))
             ''agent'' ''uri'' True))
        = [ListAgentRuntimes, CreateAgentRuntime ''agent'' ''uri'' ''PUBLIC'' ''role''])
 \<and> (list_agent_runtimes
        (example_control (Inl (OtherException ''timeout'')) (Inl (ClientError ''ValidationException'')) (Inr ''READY''))
      = Inl (OtherException ''timeout'')
    \<and> create_agent_runtime
        (example_control (Inl (OtherException ''timeout'')) (Inl (ClientError ''ValidationException'')) (Inr ''READY''))
        ''agent'' ''uri'' ''PUBLIC'' ''role'' = Inl (ClientError ''ValidationException'')
    \<and> ClientError ''ValidationException'' \<noteq> ClientError ''ConflictException''
    \<and> fst (deploy_agent (\<lambda>s. s) (Some ''role'')
             (example_control (Inl (OtherException ''timeout'')) (Inl (ClientError ''ValidationException'')) (Inr ''READY''))
             ''agent'' ''uri'' True) = Exited 1
    \<and> calls (snd (deploy_agent (\<lambda>s. s) (Some ''role'')
             (example_control (Inl (OtherException ''timeout'')) (Inl (ClientError ''ValidationException'')) (Inr ''READY''))
             ''agent'' ''uri'' True))
        = [ListAgentRuntimes, CreateAgentRuntime ''agent'' ''uri'' ''PUBLIC'' ''role'']
    \<and> written (snd (deploy_agent (\<lambda>s. s) (Some ''role'')
             (example_control (Inl (OtherException ''timeout'')) (Inl (ClientError ''ValidationException'')) (Inr ''READY''))
             ''agent'' ''uri'' True)) = [])"
  using control_plane_failures
          [where client = "example_control (Inl (OtherException ''timeout'')) (Inr example_response) (Inr ''READY'')"
             and le = "OtherException ''timeout''" and str_strip = "\<lambda>s. s" and content = "''role''"
             and agent_name = "''agent''" and container_uri = "''uri''" and auto_update = False
             and response = example_response]
        control_plane_failures
          [where client = "example_control (Inr [example_runtime]) (Inl (ClientError ''ValidationException'')) (Inr ''READY'')"
             and e = "ClientError ''ValidationException''" and str_strip = "\<lambda>s. s" and content = "''role''"
             and agent_name = "''agent''" and container_uri = "''uri''"
             and agents = "[example_runtime]" and agent = example_runtime]
        control_plane_failures
          [where client = "example_control (Inr []) (Inl (OtherException ''timeout'')) (Inr ''READY'')"
             and e = "OtherException ''timeout''" and str_strip = "\<lambda>s. s" and content = "''role''"
             and agent_name = "''agent''" and container_uri = "''uri''" and auto_update = True
             and agents = "[]"]
        control_plane_failures
          [where client = "example_control (Inl (OtherException ''timeout'')) (Inl (ClientError ''ValidationException'')) (Inr ''READY'')"
             and le = "OtherException ''timeout''" and e = "ClientError ''ValidationException''"
             and str_strip = "\<lambda>s. s" and content = "''role''"
             and agent_name = "''agent''" and container_uri = "''uri''" and auto_update = True]
  by (simp add: example_defs fatal_def)

section \<open>Properties of the cleanup\<close>

subsection \<open>The sort\<close>

text \<open>
  On keys of one kind the comparisons never raise and the sort is the stable sort by
  time stamp, newest first; on keys of two kinds a comparison between an \<^verbatim>\<open>int\<close> and a
  \<^verbatim>\<open>datetime\<close> is reached and the sort raises \<^verbatim>\<open>TypeError\<close>.
\<close>


lemma py_lt_dated:
  "dated x \<Longrightarrow> dated y \<Longrightarrow> py_lt (push_key x) (push_key y) = Inr (stamp x < stamp y)"
  by (auto simp: dated_def push_key_def stamp_def)

lemma py_lt_undated:
  "\<not> dated x \<Longrightarrow> \<not> dated y \<Longrightarrow> py_lt (push_key x) (push_key y) = Inr (stamp x < stamp y)"
  by (auto simp: dated_def push_key_def stamp_def)

lemma py_lt_mixed:
  "dated x \<noteq> dated y \<Longrightarrow> py_lt (push_key x) (push_key y) = Inl TypeError"
  by (auto simp: dated_def push_key_def)

lemma insert_newest_first_same:
  assumes "\<forall>y \<in> set ys. dated y = dated x"
  shows "insert_newest_first x ys = Inr (insort_key (\<lambda>x. - stamp x) x ys)"
  using assms
proof (induction ys)
  case Nil
  then show ?case by simp
next
  case (Cons y ys)
  then have lt: "py_lt (push_key x) (push_key y) = Inr (stamp x < stamp y)"
    by (cases "dated x") (simp_all add: py_lt_dated py_lt_undated)
  from Cons show ?case by (auto simp: lt)
qed

lemma sorted_newest_first_same:
  assumes "\<forall>x \<in> set images. dated x = b"
  shows "sorted_newest_first images = Inr (newest_first images)"
  using assms
proof (induction images)
  case Nil
  then show ?case by (simp add: newest_first_def)
next
  case (Cons x xs)
  then have ih: "sorted_newest_first xs = Inr (newest_first xs)" by simp
  have "\<forall>y \<in> set (newest_first xs). dated y = dated x"
    using Cons.prems by (simp add: newest_first_def)
  then show ?case
    using insert_newest_first_same[of "newest_first xs" x] by (simp add: ih newest_first_def)
qed

lemma not_mixed_keys:
  "\<not> mixed_keys images \<Longrightarrow> \<exists>b. \<forall>x \<in> set images. dated x = b"
  by (auto simp: mixed_keys_def list_ex_iff)

lemma sorted_newest_first_uniform:
  "\<not> mixed_keys images \<Longrightarrow> sorted_newest_first images = Inr (newest_first images)"
  using not_mixed_keys sorted_newest_first_same by blast

lemma insert_newest_first_other:
  assumes "ys \<noteq> []" "\<forall>y \<in> set ys. dated y \<noteq> dated x"
  shows "insert_newest_first x ys = Inl TypeError"
  using assms by (cases ys) (simp_all add: py_lt_mixed)

lemma sorted_newest_first_mixed:
  "mixed_keys images \<Longrightarrow> sorted_newest_first images = Inl TypeError"
proof (induction images)
  case Nil
  then show ?case by (simp add: mixed_keys_def)
next
  case (Cons x xs)
  show ?case
  proof (cases "mixed_keys xs")
    case True
    then show ?thesis using Cons.IH by simp
  next
    case False
    then obtain b where b: "\<forall>y \<in> set xs. dated y = b" using not_mixed_keys by blast
    then have s: "sorted_newest_first xs = Inr (newest_first xs)"
      by (rule sorted_newest_first_same)
    from Cons.prems b have ne: "xs \<noteq> []" and d: "dated x \<noteq> b"
      by (auto simp: mixed_keys_def list_ex_iff)
    have "insert_newest_first x (newest_first xs) = Inl TypeError"
    proof (rule insert_newest_first_other)
      have "length (newest_first xs) = length xs" by (simp add: newest_first_def)
      then show "newest_first xs \<noteq> []" using ne by (metis length_0_conv)
      show "\<forall>y \<in> set (newest_first xs). dated y \<noteq> dated x"
        using b d by (auto simp: newest_first_def)
    qed
    then show ?thesis by (simp add: s)
  qed
qed

subsection \<open>The calls of \<^verbatim>\<open>process_repository\<close>\<close>

lemma collect_image_ids_digests: "collect_image_ids xs = digests_of xs"
  by (induction xs) (auto simp: digests_of_def)

lemma digests_of_Nil [simp]: "digests_of [] = []"
  by (simp add: digests_of_def)

lemma process_repository_calls:
  assumes "describe_images ecr repo_name = Inr images" and "\<not> mixed_keys images"
  shows "calls (process_repository ecr repo_name keep_count st)
           = calls st @ [DescribeImages repo_name]
               @ delete_calls repo_name (digests_of (slice_from keep_count (newest_first images)))"
  using assms
  by (auto simp: process_repository_def sorted_newest_first_uniform collect_image_ids_digests
                 delete_calls_def Let_def effects_simps split: sum.splits)

lemma process_repository_mixed:
  assumes "describe_images ecr repo_name = Inr images" and "mixed_keys images"
  shows "process_repository ecr repo_name keep_count st
           = logf ERROR (ErrorProcessing repo_name TypeError) (call (DescribeImages repo_name) st)"
  using assms by (simp add: process_repository_def sorted_newest_first_mixed)

lemma cleanup_found:
  assumes "describe_repositories ecr repository_name = Inr found"
  shows "cleanup_ecr_images ecr keep_count repository_name =
           (Returned (),
            process_repository ecr repository_name keep_count
              (logf INFO (ProcessingRepository repository_name)
                 (call (DescribeRepositories repository_name) no_effects)))"
  using assms by (simp add: cleanup_ecr_images_def)

subsection \<open>The slice and the order\<close>

lemma slice_from_nonneg: "0 \<le> k \<Longrightarrow> slice_from k xs = drop (nat k) xs"
  by (auto simp: slice_from_def Let_def min_def)

lemma slice_from_neg:
  "k < 0 \<Longrightarrow> slice_from k xs = drop (length xs - min (length xs) (nat (- k))) xs"
proof -
  assume "k < 0"
  then have "nat (max 0 (int (length xs) + k)) = length xs - min (length xs) (nat (- k))"
    by (auto simp: max_def min_def)
  with \<open>k < 0\<close> show ?thesis by (simp add: slice_from_def Let_def)
qed

lemma newest_first_props:
  "length (newest_first images) = length images"
  "mset (newest_first images) = mset images"
  "set (newest_first images) = set images"
  "sorted (map (\<lambda>x. - stamp x) (newest_first images))"
  by (simp_all add: newest_first_def)

lemma newest_before_older:
  assumes "k \<in> set (take n (newest_first images))" "d \<in> set (drop n (newest_first images))"
  shows "stamp d \<le> stamp k"
proof -
  let ?xs = "newest_first images"
  have "sorted (map (\<lambda>x. - stamp x) (take n ?xs @ drop n ?xs))"
    by (simp add: newest_first_props)
  then have "\<forall>a \<in> set (map (\<lambda>x. - stamp x) (take n ?xs)). \<forall>b \<in> set (map (\<lambda>x. - stamp x) (drop n ?xs)). a \<le> b"
    unfolding map_append sorted_append by blast
  with assms show ?thesis by auto
qed


subsection \<open>The claims\<close>

text \<open>
  Claim C7. When the lookup of the repository raises \<^verbatim>\<open>RepositoryNotFoundException\<close>,
  \<^verbatim>\<open>cleanup_ecr_images\<close> returns normally: the lookup is its only call (no listing of
  images, no batch delete, so nothing is deleted and no count of deleted or kept images
  is reported), and its only log line is the information that the repository was not
  found and the cleanup is skipped.
\<close>

theorem repository_not_found_is_skipped:
  assumes "describe_repositories ecr repository_name = Inl (ClientError ''RepositoryNotFoundException'')"
  shows "cleanup_ecr_images ecr keep_count repository_name
           = (Returned (),
              \<lparr>calls = [DescribeRepositories repository_name],
               log = [(INFO, RepositoryNotFoundSkipping repository_name)],
               written = []\<rparr>)"
  using assms
  by (simp add: cleanup_ecr_images_def call_def logf_def no_effects_def)

text \<open>
  Claim C4, amended. The repository exists, the listing succeeds, the images are all
  dated or all undated, and \<open>keep_count \<ge> 0\<close>. Then the deletion set is what follows
  the first \<open>keep_count\<close> images of the order by \<^verbatim>\<open>pushedAt\<close> descending: it has
  \<open>max 0 (len - keep_count)\<close> images, the kept images are the other
  \<open>min keep_count len\<close>, and no image of the deletion set is newer than a kept one. The
  cleanup issues one batch delete with the digests of the images of the deletion set
  that have a digest, and none when there is no such digest; so exactly
  \<open>max 0 (len - keep_count)\<close> images are deleted when every image has a digest. With
  \<open>keep_count \<ge> len\<close> no delete call is issued, and with \<open>keep_count = 0\<close> the
  deletion set is every image.
\<close>

theorem retention_keeps_newest:
  assumes "describe_repositories ecr repository_name = Inr found"
    and "describe_images ecr repository_name = Inr images"
    and "\<not> mixed_keys images"
    and "0 \<le> keep_count"
  shows "fst (cleanup_ecr_images ecr keep_count repository_name) = Returned ()
       \<and> calls (snd (cleanup_ecr_images ecr keep_count repository_name))
           = [DescribeRepositories repository_name, DescribeImages repository_name]
               @ delete_calls repository_name (digests_of (deletion_set keep_count images))
       \<and> length (deletion_set keep_count images) = nat (max 0 (int (length images) - keep_count))
       \<and> length (kept_images keep_count images) = min (nat keep_count) (length images)
       \<and> mset (kept_images keep_count images) + mset (deletion_set keep_count images) = mset images
       \<and> (\<forall>k \<in> set (kept_images keep_count images). \<forall>d \<in> set (deletion_set keep_count images).
            stamp d \<le> stamp k)
       \<and> ((\<forall>x \<in> set images. imageDigest x \<noteq> None) \<longrightarrow>
            length (digests_of (deletion_set keep_count images))
              = nat (max 0 (int (length images) - keep_count)))
       \<and> (int (length images) \<le> keep_count \<longrightarrow>
            calls (snd (cleanup_ecr_images ecr keep_count repository_name))
              = [DescribeRepositories repository_name, DescribeImages repository_name])
       \<and> (keep_count = 0 \<longrightarrow> deletion_set keep_count images = newest_first images)"
proof -
  have c: "calls (snd (cleanup_ecr_images ecr keep_count repository_name))
           = [DescribeRepositories repository_name, DescribeImages repository_name]
               @ delete_calls repository_name (digests_of (deletion_set keep_count images))"
    by (simp add: cleanup_found[OF assms(1)] process_repository_calls[OF assms(2,3)]
                  slice_from_nonneg[OF assms(4)] deletion_set_def effects_simps)
  have l: "length (deletion_set keep_count images) = nat (max 0 (int (length images) - keep_count))"
    using assms(4) by (auto simp: deletion_set_def newest_first_props max_def)
  have k: "length (kept_images keep_count images) = min (nat keep_count) (length images)"
    by (simp add: kept_images_def newest_first_props)
  have m: "mset (kept_images keep_count images) + mset (deletion_set keep_count images) = mset images"
    unfolding kept_images_def deletion_set_def
    by (metis append_take_drop_id mset_append newest_first_props(2))
  have o: "\<forall>k \<in> set (kept_images keep_count images). \<forall>d \<in> set (deletion_set keep_count images). stamp d \<le> stamp k"
    unfolding kept_images_def deletion_set_def using newest_before_older by blast
  have d: "length (digests_of (deletion_set keep_count images)) = nat (max 0 (int (length images) - keep_count))"
    if "\<forall>x \<in> set images. imageDigest x \<noteq> None"
  proof -
    have "set (deletion_set keep_count images) \<subseteq> set images"
      unfolding deletion_set_def by (metis newest_first_props(3) set_drop_subset)
    with that have "filter (\<lambda>x. imageDigest x \<noteq> None) (deletion_set keep_count images)
                      = deletion_set keep_count images"
      by (auto simp: filter_id_conv)
    then show ?thesis by (simp add: digests_of_def l)
  qed
  have e: "calls (snd (cleanup_ecr_images ecr keep_count repository_name))
              = [DescribeRepositories repository_name, DescribeImages repository_name]"
    if "int (length images) \<le> keep_count"
    using that c by (simp add: deletion_set_def newest_first_props delete_calls_def)
  have z: "deletion_set keep_count images = newest_first images" if "keep_count = 0"
    using that by (simp add: deletion_set_def)
  have r: "fst (cleanup_ecr_images ecr keep_count repository_name) = Returned ()"
    by (simp add: cleanup_found[OF assms(1)])
  from r c l k m o d e z show ?thesis by blast
qed

text \<open>
  Claim C5 says that images without a time stamp sort as the oldest and are the first
  to be deleted. The code does not get that far: when the listing holds both a dated
  and an undated image, the sort raises \<^verbatim>\<open>TypeError\<close>, the handler of
  \<^verbatim>\<open>process_repository\<close> logs it, and the cleanup returns without a delete call.
\<close>

theorem mixed_timestamps_abort_cleanup:
  assumes "describe_repositories ecr repository_name = Inr found"
    and "describe_images ecr repository_name = Inr images"
    and "mixed_keys images"
  shows "cleanup_ecr_images ecr keep_count repository_name
           = (Returned (),
              \<lparr>calls = [DescribeRepositories repository_name, DescribeImages repository_name],
               log = [(INFO, ProcessingRepository repository_name),
                      (ERROR, ErrorProcessing repository_name TypeError)],
               written = []\<rparr>)"
  by (simp add: cleanup_found[OF assms(1)] process_repository_mixed[OF assms(2,3)]
                call_def logf_def no_effects_def)

text \<open>
  Claim C6, amended. The repository exists, the listing succeeds, the images are all
  dated or all undated, and \<open>keep_count < 0\<close>. Then the deletion set is the last
  \<open>min len (- keep_count)\<close> images of the order, the oldest ones, and the images
  before them are kept; the cleanup issues one batch delete with the digests among
  them. Every image is in the deletion set exactly when \<open>len \<le> - keep_count\<close>.
\<close>

theorem negative_keep_count_deletes_oldest:
  assumes "describe_repositories ecr repository_name = Inr found"
    and "describe_images ecr repository_name = Inr images"
    and "\<not> mixed_keys images"
    and "keep_count < 0"
  shows "fst (cleanup_ecr_images ecr keep_count repository_name) = Returned ()
       \<and> calls (snd (cleanup_ecr_images ecr keep_count repository_name))
           = [DescribeRepositories repository_name, DescribeImages repository_name]
               @ delete_calls repository_name (digests_of (oldest (nat (- keep_count)) images))
       \<and> length (oldest (nat (- keep_count)) images) = min (length images) (nat (- keep_count))
       \<and> take (length images - min (length images) (nat (- keep_count))) (newest_first images)
            @ oldest (nat (- keep_count)) images = newest_first images
       \<and> (oldest (nat (- keep_count)) images = newest_first images)
           = (length images \<le> nat (- keep_count))"
proof -
  let ?m = "nat (- keep_count)"
  have c: "calls (snd (cleanup_ecr_images ecr keep_count repository_name))
           = [DescribeRepositories repository_name, DescribeImages repository_name]
               @ delete_calls repository_name (digests_of (oldest ?m images))"
    by (simp add: cleanup_found[OF assms(1)] process_repository_calls[OF assms(2,3)]
                  slice_from_neg[OF assms(4)] oldest_def effects_simps newest_first_props)
  have l: "length (oldest ?m images) = min (length images) ?m"
    by (auto simp: oldest_def newest_first_props min_def)
  have a: "take (length images - min (length images) ?m) (newest_first images) @ oldest ?m images
             = newest_first images"
    by (simp add: oldest_def)
  have i: "(oldest ?m images = newest_first images) = (length images \<le> ?m)"
  proof
    assume "oldest ?m images = newest_first images"
    then have "length (oldest ?m images) = length images" by (simp add: newest_first_props)
    with l show "length images \<le> ?m" by simp
  next
    assume "length images \<le> ?m"
    then show "oldest ?m images = newest_first images" by (simp add: oldest_def min_def)
  qed
  have r: "fst (cleanup_ecr_images ecr keep_count repository_name) = Returned ()"
    by (simp add: cleanup_found[OF assms(1)])
  from r c l a i show ?thesis by blast
qed


subsection \<open>Examples\<close>

lemmas cleanup_example_defs =
  example_ecr_def pushed_def undated_def twelve_images_def

lemmas cleanup_run_defs =
  cleanup_ecr_images_def process_repository_def slice_from_def push_key_def
  call_def logf_def logs_def no_effects_def Let_def

text \<open>C7 at a registry that does not have the repository.\<close>

theorem repository_not_found_is_skipped_witness:
  "describe_repositories (example_ecr (Inl (ClientError ''RepositoryNotFoundException'')) (Inr twelve_images)) ''repo''
     = Inl (ClientError ''RepositoryNotFoundException'')
   \<and> cleanup_ecr_images (example_ecr (Inl (ClientError ''RepositoryNotFoundException'')) (Inr twelve_images)) 9 ''repo''
     = (Returned (),
        \<lparr>calls = [DescribeRepositories ''repo''],
         log = [(INFO, RepositoryNotFoundSkipping ''repo'')],
         written = []\<rparr>)"
  using repository_not_found_is_skipped
          [of "example_ecr (Inl (ClientError ''RepositoryNotFoundException'')) (Inr twelve_images)" "''repo''" 9]
  by (simp add: example_ecr_def)

text \<open>
  Claim C4 says that \<open>max 0 (len - keep_count)\<close> images are deleted for every image
  list, and all of them for \<open>keep_count = 0\<close>. Here the only image has no digest and
  \<open>keep_count\<close> is 0: the check of line 96 leaves it out, the list of identifiers is
  empty and no delete call is issued, where the claim has one image deleted.
\<close>

theorem image_without_digest_is_not_deleted:
  "cleanup_ecr_images
     (example_ecr (Inr ()) (Inr [\<lparr>imageDigest = None, imagePushedAt = Some 1\<rparr>])) 0 ''repo''
     = (Returned (),
        \<lparr>calls = [DescribeRepositories ''repo'', DescribeImages ''repo''],
         log = [(INFO, ProcessingRepository ''repo'')],
         written = []\<rparr>)
   \<and> max 0 (int (length [\<lparr>imageDigest = None, imagePushedAt = Some (1::int)\<rparr>]) - 0) = 1"
  by (simp add: cleanup_run_defs example_ecr_def)

text \<open>C4 as amended, at three dated images and \<open>keep_count = 2\<close>: the oldest is deleted.\<close>

theorem retention_keeps_newest_witness:
  "describe_repositories (example_ecr (Inr ()) (Inr [pushed ''a'' 1, pushed ''b'' 3, pushed ''c'' 2])) ''repo'' = Inr ()
   \<and> describe_images (example_ecr (Inr ()) (Inr [pushed ''a'' 1, pushed ''b'' 3, pushed ''c'' 2])) ''repo''
       = Inr [pushed ''a'' 1, pushed ''b'' 3, pushed ''c'' 2]
   \<and> \<not> mixed_keys [pushed ''a'' 1, pushed ''b'' 3, pushed ''c'' 2]
   \<and> (0::int) \<le> 2
   \<and> kept_images 2 [pushed ''a'' 1, pushed ''b'' 3, pushed ''c'' 2] = [pushed ''b'' 3, pushed ''c'' 2]
   \<and> deletion_set 2 [pushed ''a'' 1, pushed ''b'' 3, pushed ''c'' 2] = [pushed ''a'' 1]
   \<and> calls (snd (cleanup_ecr_images (example_ecr (Inr ()) (Inr [pushed ''a'' 1, pushed ''b'' 3, pushed ''c'' 2])) 2 ''repo''))
       = [DescribeRepositories ''repo'', DescribeImages ''repo'', BatchDeleteImage ''repo'' [''a'']]"
  using retention_keeps_newest
          [of "example_ecr (Inr ()) (Inr [pushed ''a'' 1, pushed ''b'' 3, pushed ''c'' 2])" "''repo''" "()"
              "[pushed ''a'' 1, pushed ''b'' 3, pushed ''c'' 2]" 2]
  by (simp add: cleanup_example_defs mixed_keys_def dated_def kept_images_def deletion_set_def
                newest_first_def stamp_def digests_of_def delete_calls_def numeral_2_eq_2)

text \<open>
  The scenario of C5: twelve images, three of them undated, \<open>keep_count = 9\<close>. The
  cleanup logs the \<^verbatim>\<open>TypeError\<close> and deletes nothing.
\<close>

theorem mixed_timestamps_abort_cleanup_witness:
  "describe_repositories (example_ecr (Inr ()) (Inr twelve_images)) ''repo'' = Inr ()
   \<and> describe_images (example_ecr (Inr ()) (Inr twelve_images)) ''repo'' = Inr twelve_images
   \<and> length twelve_images = 12
   \<and> length (filter dated twelve_images) = 9
   \<and> mixed_keys twelve_images
   \<and> cleanup_ecr_images (example_ecr (Inr ()) (Inr twelve_images)) 9 ''repo''
       = (Returned (),
          \<lparr>calls = [DescribeRepositories ''repo'', DescribeImages ''repo''],
           log = [(INFO, ProcessingRepository ''repo''), (ERROR, ErrorProcessing ''repo'' TypeError)],
           written = []\<rparr>)"
  using mixed_timestamps_abort_cleanup
          [of "example_ecr (Inr ()) (Inr twelve_images)" "''repo''" "()" twelve_images 9]
  by (simp add: cleanup_example_defs mixed_keys_def dated_def)

text \<open>
  Claim C6 says that a negative \<open>keep_count\<close> deletes every image. Here
  \<open>keep_count = -1\<close> and there are two images: \<^verbatim>\<open>sorted_images[-1:]\<close> is the last
  image only, so the older image is deleted and the newer one is kept.
\<close>

theorem negative_keep_count_keeps_newest:
  "cleanup_ecr_images (example_ecr (Inr ()) (Inr [pushed ''new'' 2, pushed ''old'' 1])) (- 1) ''repo''
     = (Returned (),
        \<lparr>calls = [DescribeRepositories ''repo'', DescribeImages ''repo'', BatchDeleteImage ''repo'' [''old'']],
         log = [(INFO, ProcessingRepository ''repo''), (INFO, DeletedOld 1 ''repo''), (INFO, KeptRecent (- 1))],
         written = []\<rparr>)"
  by (simp add: cleanup_run_defs cleanup_example_defs)

text \<open>C6 as amended, at the same two images.\<close>

theorem negative_keep_count_deletes_oldest_witness:
  "describe_repositories (example_ecr (Inr ()) (Inr [pushed ''new'' 2, pushed ''old'' 1])) ''repo'' = Inr ()
   \<and> describe_images (example_ecr (Inr ()) (Inr [pushed ''new'' 2, pushed ''old'' 1])) ''repo''
       = Inr [pushed ''new'' 2, pushed ''old'' 1]
   \<and> \<not> mixed_keys [pushed ''new'' 2, pushed ''old'' 1]
   \<and> (- 1::int) < 0
   \<and> oldest (nat (- (- 1))) [pushed ''new'' 2, pushed ''old'' 1] = [pushed ''old'' 1]
   \<and> calls (snd (cleanup_ecr_images (example_ecr (Inr ()) (Inr [pushed ''new'' 2, pushed ''old'' 1])) (- 1) ''repo''))
       = [DescribeRepositories ''repo'', DescribeImages ''repo'', BatchDeleteImage ''repo'' [''old'']]"
  using negative_keep_count_deletes_oldest
          [of "example_ecr (Inr ()) (Inr [pushed ''new'' 2, pushed ''old'' 1])" "''repo''" "()"
              "[pushed ''new'' 2, pushed ''old'' 1]" "- 1"]
  by (simp add: cleanup_example_defs mixed_keys_def dated_def oldest_def
                newest_first_def stamp_def digests_of_def delete_calls_def)

section \<open>Properties of \<^verbatim>\<open>test_agent\<close>\<close>

subsection \<open>The lookup and the loop\<close>


lemma find_runtime_find:
  "find_runtime agent_name runtimes =
     map_option (\<lambda>r. (agentRuntimeArn r, agentRuntimeId r)) (find (\<lambda>r. agentRuntimeName r = agent_name) runtimes)"
  by (induction runtimes) auto

lemma find_runtime_absent:
  "agent_name \<notin> set (map agentRuntimeName runtimes) \<Longrightarrow> find_runtime agent_name runtimes = None"
  by (induction runtimes) auto

lemma run_tests_result:
  "fst (run_tests client lib agent_arn n i prompts (all_passed, st))
     = (all_passed \<and> list_all (\<lambda>p. \<not> isl (run_case client lib agent_arn p)) prompts)"
  by (induction prompts arbitrary: i all_passed st) (auto simp: Let_def split: sum.splits)

lemma run_tests_calls:
  "calls (snd (run_tests client lib agent_arn n i prompts (all_passed, st)))
     = calls st @ map (\<lambda>p. InvokeAgentRuntime agent_arn ''DEFAULT'' (dumps p)) prompts"
  by (induction prompts arbitrary: i all_passed st) (auto simp: Let_def effects_simps split: sum.splits)

lemma run_tests_written:
  "written (snd (run_tests client lib agent_arn n i prompts (all_passed, st))) = written st"
  by (induction prompts arbitrary: i all_passed st) (auto simp: Let_def effects_simps split: sum.splits)

lemma run_tests_log:
  "log (snd (run_tests client lib agent_arn n i prompts (all_passed, st)))
     = log st @ concat (map (case_log client lib agent_arn n) (enumerate i prompts))"
  by (induction prompts arbitrary: i all_passed st)
     (auto simp: Let_def effects_simps case_log_def split: sum.splits)

lemma test_agent_ready:
  assumes "list_agent_runtimes control = Inr runtimes"
    and "find (\<lambda>r. agentRuntimeName r = agent_name) runtimes = Some runtime"
    and "agentRuntimeArn runtime \<noteq> []"
    and "get_agent_runtime control (agentRuntimeId runtime) = Inr ''READY''"
  shows "test_agent control client lib agent_name region =
     (case run_tests client lib (agentRuntimeArn runtime) (length test_cases) 1 test_cases
             (True, logs [(INFO, TestingAgent agent_name), (INFO, AgentArnLine (agentRuntimeArn runtime)),
                          (INFO, RegionLine region), (INFO, Rule60)]
                      (logf INFO (RuntimeStatus ''READY'')
                         (call (GetAgentRuntime (agentRuntimeId runtime))
                            (logf INFO (FoundAgentArn (agentRuntimeArn runtime))
                               (call ListAgentRuntimes no_effects))))) of
        (all_passed, st4) \<Rightarrow>
          (if all_passed then (Returned True, logf INFO AllTestsPassed (logf INFO ClosingRule60 st4))
           else (Returned False, logf ERROR SomeTestsFailed (logf INFO ClosingRule60 st4))))"
  using assms by (simp add: test_agent_def find_runtime_find Let_def)

lemma is_invoke_map [simp]:
  "filter is_invoke (map (\<lambda>p. InvokeAgentRuntime a q (f p)) ps) = map (\<lambda>p. InvokeAgentRuntime a q (f p)) ps"
  by (induction ps) auto

subsection \<open>The gate before the test cases\<close>

text \<open>
  Claim C8. The listing succeeds. If no runtime in it has the target name, or the
  status query for the runtime found answers anything but \<^verbatim>\<open>READY\<close> (another status,
  or an exception), \<^verbatim>\<open>test_agent\<close> returns \<^verbatim>\<open>False\<close>: it ends by returning, not by
  raising, and none of its calls is an invocation of the runtime.
\<close>

theorem absent_or_not_ready:
  assumes "list_agent_runtimes control = Inr runtimes"
    and "agent_name \<notin> set (map agentRuntimeName runtimes)
       \<or> (\<exists>runtime. find (\<lambda>r. agentRuntimeName r = agent_name) runtimes = Some runtime
                    \<and> get_agent_runtime control (agentRuntimeId runtime) \<noteq> Inr ''READY'')"
  shows "fst (test_agent control client lib agent_name region) = Returned False
       \<and> filter is_invoke (calls (snd (test_agent control client lib agent_name region))) = []"
  using assms(2)
proof
  assume "agent_name \<notin> set (map agentRuntimeName runtimes)"
  then show ?thesis
    by (simp add: test_agent_def assms(1) find_runtime_absent Let_def effects_simps)
next
  assume "\<exists>runtime. find (\<lambda>r. agentRuntimeName r = agent_name) runtimes = Some runtime
                    \<and> get_agent_runtime control (agentRuntimeId runtime) \<noteq> Inr ''READY''"
  then obtain runtime where f: "find (\<lambda>r. agentRuntimeName r = agent_name) runtimes = Some runtime"
    and g: "get_agent_runtime control (agentRuntimeId runtime) \<noteq> Inr ''READY''" by blast
  show ?thesis
    using g
    by (cases "get_agent_runtime control (agentRuntimeId runtime)")
       (auto simp: test_agent_def assms(1) find_runtime_find f Let_def effects_simps)
qed

subsection \<open>The test cases\<close>

text \<open>
  Claim C9. For a runtime that is found and \<^verbatim>\<open>READY\<close>: the result is the conjunction,
  over the ten test cases, of "the \<^verbatim>\<open>try\<close> body of the case raised nothing"; the
  invocations issued are those of all ten cases, in order, whichever of them raise;
  each case leaves its own lines in the log, the error of its exception or what its
  response shows; so one case that raises makes the result \<^verbatim>\<open>False\<close> and stops none
  of the others.
\<close>

theorem fault_isolation_per_case:
  assumes "list_agent_runtimes control = Inr runtimes"
    and "find (\<lambda>r. agentRuntimeName r = agent_name) runtimes = Some runtime"
    and "agentRuntimeArn runtime \<noteq> []"
    and "get_agent_runtime control (agentRuntimeId runtime) = Inr ''READY''"
  shows "fst (test_agent control client lib agent_name region)
           = Returned (list_all (\<lambda>p. \<not> isl (run_case client lib (agentRuntimeArn runtime) p)) test_cases)
       \<and> filter is_invoke (calls (snd (test_agent control client lib agent_name region)))
           = map (\<lambda>p. InvokeAgentRuntime (agentRuntimeArn runtime) ''DEFAULT'' (dumps p)) test_cases
       \<and> length test_cases = 10
       \<and> ((\<exists>p \<in> set test_cases. isl (run_case client lib (agentRuntimeArn runtime) p)) \<longrightarrow>
            fst (test_agent control client lib agent_name region) = Returned False)
       \<and> (\<exists>before after.
            log (snd (test_agent control client lib agent_name region))
              = before @ concat (map (case_log client lib (agentRuntimeArn runtime) 10) (enumerate 1 test_cases)) @ after)"
proof -
  let ?st3 = "logs [(INFO, TestingAgent agent_name), (INFO, AgentArnLine (agentRuntimeArn runtime)),
                          (INFO, RegionLine region), (INFO, Rule60)]
                      (logf INFO (RuntimeStatus ''READY'')
                         (call (GetAgentRuntime (agentRuntimeId runtime))
                            (logf INFO (FoundAgentArn (agentRuntimeArn runtime))
                               (call ListAgentRuntimes no_effects))))"
  let ?r = "run_tests client lib (agentRuntimeArn runtime) (length test_cases) 1 test_cases (True, ?st3)"
  have len: "length test_cases = 10" by (simp add: test_cases_def)
  have r1: "fst ?r = list_all (\<lambda>p. \<not> isl (run_case client lib (agentRuntimeArn runtime) p)) test_cases"
    by (simp add: run_tests_result)
  have r2: "calls (snd ?r) = [ListAgentRuntimes, GetAgentRuntime (agentRuntimeId runtime)]
              @ map (\<lambda>p. InvokeAgentRuntime (agentRuntimeArn runtime) ''DEFAULT'' (dumps p)) test_cases"
    by (simp add: run_tests_calls effects_simps)
  have r3: "log (snd ?r) = log ?st3 @ concat (map (case_log client lib (agentRuntimeArn runtime) 10) (enumerate 1 test_cases))"
    by (simp only: run_tests_log len)
  have t: "test_agent control client lib agent_name region =
      (if fst ?r then (Returned True, logf INFO AllTestsPassed (logf INFO ClosingRule60 (snd ?r)))
       else (Returned False, logf ERROR SomeTestsFailed (logf INFO ClosingRule60 (snd ?r))))"
    by (simp add: test_agent_ready[OF assms] split: prod.splits)
  have "fst (test_agent control client lib agent_name region) = Returned (fst ?r)"
    by (simp add: t)
  moreover have "calls (snd (test_agent control client lib agent_name region)) = calls (snd ?r)"
    by (simp add: t effects_simps)
  moreover have "\<exists>after. log (snd (test_agent control client lib agent_name region)) = log (snd ?r) @ after"
    by (simp add: t effects_simps)
  ultimately show ?thesis
    using r1 r2 r3 len by (auto simp del: append_assoc simp add: append_assoc[symmetric] list_all_iff)
qed


text \<open>A case's \<^verbatim>\<open>try\<close> body raises exactly when the invocation or the decoding does.\<close>

lemma show_response_raises: "isl (show_response lib response) = decoding_raises lib response"
  by (auto simp: show_response_def decoding_raises_def
           split: option.splits sum.splits exn.splits payload_value.splits)

lemma run_case_raises: "isl (run_case client lib agent_arn p) = case_raises client lib agent_arn p"
  by (simp add: run_case_def case_raises_def show_response_raises split: sum.splits)

text \<open>
  Claim C10. A test case changes \<^verbatim>\<open>all_passed\<close> only by raising: a case whose
  invocation and decoding raise nothing leaves it as it was, whatever the response
  says, and a case that raises sets it to \<^verbatim>\<open>False\<close>. So for a runtime that is found
  and \<^verbatim>\<open>READY\<close>, \<^verbatim>\<open>test_agent\<close> returns \<^verbatim>\<open>True\<close> exactly when no test case raises.
\<close>

theorem passes_iff_no_exception:
  assumes "list_agent_runtimes control = Inr runtimes"
    and "find (\<lambda>r. agentRuntimeName r = agent_name) runtimes = Some runtime"
    and "agentRuntimeArn runtime \<noteq> []"
    and "get_agent_runtime control (agentRuntimeId runtime) = Inr ''READY''"
  shows "fst (run_tests client lib (agentRuntimeArn runtime) n i [p] (all_passed, st))
           = (all_passed \<and> \<not> case_raises client lib (agentRuntimeArn runtime) p)
       \<and> (fst (test_agent control client lib agent_name region) = Returned True)
           = (\<forall>p \<in> set test_cases. \<not> case_raises client lib (agentRuntimeArn runtime) p)"
proof -
  have "fst (test_agent control client lib agent_name region)
          = Returned (fst (run_tests client lib (agentRuntimeArn runtime) (length test_cases) 1 test_cases
             (True, logs [(INFO, TestingAgent agent_name), (INFO, AgentArnLine (agentRuntimeArn runtime)),
                          (INFO, RegionLine region), (INFO, Rule60)]
                      (logf INFO (RuntimeStatus ''READY'')
                         (call (GetAgentRuntime (agentRuntimeId runtime))
                            (logf INFO (FoundAgentArn (agentRuntimeArn runtime))
                               (call ListAgentRuntimes no_effects)))))))"
    by (simp add: test_agent_ready[OF assms] split: prod.splits)
  then show ?thesis
    by (simp add: run_tests_result run_case_raises list_all_iff del: run_tests.simps)
qed

subsection \<open>Examples\<close>

lemmas test_example_defs =
  example_control_def example_runtime_def example_response_def example_lib_def
  status_only_def streamed_def one_transport_error_def always_five_def

text \<open>C8 at an empty listing and at a runtime whose status is \<^verbatim>\<open>CREATING\<close>.\<close>

theorem absent_or_not_ready_witness:
  "list_agent_runtimes (example_control (Inr []) (Inr example_response) (Inr ''READY'')) = Inr []
   \<and> ''agent'' \<notin> set (map agentRuntimeName [])
   \<and> fst (test_agent (example_control (Inr []) (Inr example_response) (Inr ''READY''))
            always_five example_lib ''agent'' ''us-east-1'') = Returned False
   \<and> list_agent_runtimes (example_control (Inr [example_runtime]) (Inr example_response) (Inr ''CREATING''))
       = Inr [example_runtime]
   \<and> find (\<lambda>r. agentRuntimeName r = ''agent'') [example_runtime] = Some example_runtime
   \<and> get_agent_runtime (example_control (Inr [example_runtime]) (Inr example_response) (Inr ''CREATING''))
        (agentRuntimeId example_runtime) \<noteq> Inr ''READY''
   \<and> fst (test_agent (example_control (Inr [example_runtime]) (Inr example_response) (Inr ''CREATING''))
            always_five example_lib ''agent'' ''us-east-1'') = Returned False
   \<and> filter is_invoke
        (calls (snd (test_agent (example_control (Inr [example_runtime]) (Inr example_response) (Inr ''CREATING''))
                       always_five example_lib ''agent'' ''us-east-1''))) = []"
  using absent_or_not_ready
          [of "example_control (Inr []) (Inr example_response) (Inr ''READY'')" "[]" "''agent''"
              always_five example_lib "''us-east-1''"]
        absent_or_not_ready
          [of "example_control (Inr [example_runtime]) (Inr example_response) (Inr ''CREATING'')"
              "[example_runtime]" "''agent''" always_five example_lib "''us-east-1''"]
  by (simp add: test_example_defs)

text \<open>
  C9 at a runtime whose transport fails on the second prompt only: the result is
  \<^verbatim>\<open>False\<close> and all ten invocations are issued.
\<close>

theorem fault_isolation_per_case_witness:
  "list_agent_runtimes (example_control (Inr [example_runtime]) (Inr example_response) (Inr ''READY''))
     = Inr [example_runtime]
   \<and> find (\<lambda>r. agentRuntimeName r = ''agent'') [example_runtime] = Some example_runtime
   \<and> agentRuntimeArn example_runtime \<noteq> []
   \<and> get_agent_runtime (example_control (Inr [example_runtime]) (Inr example_response) (Inr ''READY''))
        (agentRuntimeId example_runtime) = Inr ''READY''
   \<and> run_case one_transport_error example_lib ''arn:agent'' ''Calculate 15 * 7''
       = Inl (OtherException ''transport error'')
   \<and> fst (test_agent (example_control (Inr [example_runtime]) (Inr example_response) (Inr ''READY''))
            one_transport_error example_lib ''agent'' ''us-east-1'') = Returned False
   \<and> length (filter is_invoke
        (calls (snd (test_agent (example_control (Inr [example_runtime]) (Inr example_response) (Inr ''READY''))
                       one_transport_error example_lib ''agent'' ''us-east-1'')))) = 10"
  using fault_isolation_per_case
          [of "example_control (Inr [example_runtime]) (Inr example_response) (Inr ''READY'')"
              "[example_runtime]" "''agent''" example_runtime one_transport_error example_lib "''us-east-1''"]
  by (simp add: test_example_defs run_case_def test_cases_def)

text \<open>
  C10 at a runtime that answers \<^verbatim>\<open>5\<close> to every prompt, "What is 2 + 2?" included:
  every case passes and the result is \<^verbatim>\<open>True\<close>.
\<close>

theorem passes_iff_no_exception_witness:
  "list_agent_runtimes (example_control (Inr [example_runtime]) (Inr example_response) (Inr ''READY''))
     = Inr [example_runtime]
   \<and> find (\<lambda>r. agentRuntimeName r = ''agent'') [example_runtime] = Some example_runtime
   \<and> agentRuntimeArn example_runtime \<noteq> []
   \<and> get_agent_runtime (example_control (Inr [example_runtime]) (Inr example_response) (Inr ''READY''))
        (agentRuntimeId example_runtime) = Inr ''READY''
   \<and> run_case always_five example_lib ''arn:agent'' ''What is 2 + 2?''
       = Inr [(INFO, ResponseValue (JNumber ''5''))]
   \<and> fst (test_agent (example_control (Inr [example_runtime]) (Inr example_response) (Inr ''READY''))
            always_five example_lib ''agent'' ''us-east-1'') = Returned True"
  using passes_iff_no_exception
          [of "example_control (Inr [example_runtime]) (Inr example_response) (Inr ''READY'')"
              "[example_runtime]" "''agent''" example_runtime always_five example_lib
              0 0 "''What is 2 + 2?''" True no_effects "''us-east-1''"]
  by (simp add: test_example_defs run_case_def show_response_def show_json_def
                case_raises_def decoding_raises_def)

end
